theory Spec2Isabelle
  imports Main "HOL-Library.Word"
begin

section \<open>The threaded-comment service (comment.service.ts)\<close>

text \<open>
  A shallow embedding of \<^verbatim>\<open>CommentService\<close>: the comment collection is a list of
  documents in insertion order, every method takes the store and returns the result
  together with the store it leaves behind, and every exception of the source is a value
  of \<open>error\<close>. One method runs at a time: the statements of a method follow each other
  on the store with nothing in between.
\<close>

subsection \<open>Strings and identifiers\<close>

text \<open>
  A JavaScript string is a sequence of UTF-16 code units; \<open>length\<close> is the source's
  \<^verbatim>\<open>.length\<close> and \<open>take\<close> its \<^verbatim>\<open>substring(0, n)\<close>.
\<close>

type_synonym jsstring = "16 word list"

definition js :: "string \<Rightarrow> jsstring" where
  "js s = map of_char s"

text \<open>
  \<^verbatim>\<open>String.prototype.trim\<close>, which the schema applies to \<^verbatim>\<open>content\<close>
  (\<^verbatim>\<open>trim: true\<close>): white space and line terminators of ECMAScript.
\<close>

definition isWhiteSpace :: "16 word \<Rightarrow> bool" where
  "isWhiteSpace u \<longleftrightarrow>
     u \<in> {0x9, 0xA, 0xB, 0xC, 0xD, 0x20, 0xA0, 0x1680, 0x2028, 0x2029, 0x202F, 0x205F,
          0x3000, 0xFEFF}
     \<or> (0x2000 \<le> u \<and> u \<le> 0x200A)"

definition trim :: "jsstring \<Rightarrow> jsstring" where
  "trim s = rev (dropWhile isWhiteSpace (rev (dropWhile isWhiteSpace s)))"

text \<open>
  \<^verbatim>\<open>Types.ObjectId\<close> of the driver. \<^verbatim>\<open>isValid\<close> accepts a string of 24 hexadecimal
  digits of either case; the constructor reads the digits whatever their case, and the
  identifier prints (\<^verbatim>\<open>toString()\<close>) as lower-case digits. An identifier is
  represented by the string it prints.
\<close>

datatype ObjectId = ObjectId (toString: jsstring)

definition isHexDigit :: "16 word \<Rightarrow> bool" where
  "isHexDigit u \<longleftrightarrow>
     (0x30 \<le> u \<and> u \<le> 0x39) \<or> (0x61 \<le> u \<and> u \<le> 0x66) \<or> (0x41 \<le> u \<and> u \<le> 0x46)"

definition isValid :: "jsstring \<Rightarrow> bool" where
  "isValid s \<longleftrightarrow> length s = 24 \<and> list_all isHexDigit s"

definition lowerHex :: "16 word \<Rightarrow> 16 word" where
  "lowerHex u = (if 0x41 \<le> u \<and> u \<le> 0x46 then u + 0x20 else u)"

text \<open>\<^verbatim>\<open>new Types.ObjectId(s)\<close> where the source has checked \<^verbatim>\<open>isValid(s)\<close> before.\<close>

definition ObjectId_from :: "jsstring \<Rightarrow> ObjectId" where
  "ObjectId_from s = ObjectId (map lowerHex s)"

subsection \<open>Errors\<close>

text \<open>
  The three HTTP exceptions the service throws, with their messages, and the failures
  that reach the caller from below: a null dereference (\<open>TypeError\<close>), the identifier
  constructor on a malformed string (\<open>BSONError\<close>), schema validation on save
  (\<open>ValidationError\<close>) and a failure of the database server (\<open>MongoServerError\<close>).
\<close>

datatype error =
    BadRequestException string
  | NotFoundException string
  | ForbiddenException string
  | TypeError
  | BSONError
  | ValidationError
  | MongoServerError

text \<open>\<^verbatim>\<open>new Types.ObjectId(s)\<close> on an unchecked string.\<close>

definition newObjectId :: "jsstring \<Rightarrow> error + ObjectId" where
  "newObjectId s = (if isValid s then Inr (ObjectId_from s) else Inl BSONError)"

subsection \<open>Documents\<close>

text \<open>
  \<^verbatim>\<open>Comment\<close> of comment.schema.ts (\<open>c_id\<close> is \<^verbatim>\<open>_id\<close>), with the defaults of the
  schema written out where a document is created. \<^verbatim>\<open>updated_at\<close> is written by the
  mapper and read by no method; it is left out.
\<close>

record Comment =
  c_id :: ObjectId
  product_id :: ObjectId
  user_id :: ObjectId
  content :: jsstring
  parent_id :: "ObjectId option"
  replies :: "ObjectId list"
  reply_count :: int
  is_deleted :: bool
  created_at :: int

text \<open>
  Modelled from the spec: the User and Product schemas are not among the sources. The
  fields are those the service selects when it populates a reference
  (\<^verbatim>\<open>'name avatar email role'\<close>, \<^verbatim>\<open>'name slug image_primary'\<close>).
\<close>

record User =
  u_id :: ObjectId
  user_name :: jsstring
  avatar :: "jsstring option"
  email :: jsstring
  role :: jsstring

record Product =
  p_id :: ObjectId
  product_name :: jsstring
  slug :: jsstring
  image_primary :: "jsstring option"

record Store =
  comments :: "Comment list"
  users :: "User list"
  products :: "Product list"

text \<open>
  A lean comment as the methods return it
  (\<^verbatim>\<open>select('_id product_id user_id content parent_id reply_count created_at updated_at')\<close>),
  the author populated; \<open>'p\<close> is what stands in \<^verbatim>\<open>product_id\<close>: the identifier, or
  the populated product (\<open>None\<close> when no product has that identifier).
\<close>

record 'p CommentView =
  v_id :: ObjectId
  v_product_id :: 'p
  v_user_id :: "User option"
  v_content :: jsstring
  v_parent_id :: "ObjectId option"
  v_reply_count :: int
  v_created_at :: int

record CreateCommentDto =
  dto_product_id :: jsstring
  dto_content :: jsstring
  dto_parent_id :: "jsstring option"

record UpdateCommentDto =
  upd_content :: "jsstring option"

subsection \<open>The store\<close>

text \<open>
  \<^verbatim>\<open>if (x)\<close> on an optional string: \<^verbatim>\<open>undefined\<close> and the empty string are falsy.
  \<open>given x\<close> is the string when it is truthy.
\<close>

definition given :: "jsstring option \<Rightarrow> jsstring option" where
  "given x = (case x of None \<Rightarrow> None | Some t \<Rightarrow> if t = [] then None else Some t)"

definition findOne :: "(Comment \<Rightarrow> bool) \<Rightarrow> Store \<Rightarrow> Comment option" where
  "findOne q s = find q (comments s)"

definition findById :: "ObjectId \<Rightarrow> Store \<Rightarrow> Comment option" where
  "findById i s = findOne (\<lambda>c. c_id c = i) s"

text \<open>\<^verbatim>\<open>findOne({ _id: new Types.ObjectId(id), is_deleted: false })\<close>.\<close>

definition findActive :: "jsstring \<Rightarrow> Store \<Rightarrow> Comment option" where
  "findActive i s = findOne (\<lambda>c. c_id c = ObjectId_from i \<and> \<not> is_deleted c) s"

text \<open>
  An update by \<^verbatim>\<open>_id\<close> (\<^verbatim>\<open>findByIdAndUpdate\<close>, or \<^verbatim>\<open>save()\<close> of a loaded document,
  which writes the modified paths) changes the first document with that identifier.
\<close>

fun updateFirst :: "('a \<Rightarrow> bool) \<Rightarrow> ('a \<Rightarrow> 'a) \<Rightarrow> 'a list \<Rightarrow> 'a list" where
  "updateFirst q f [] = []"
| "updateFirst q f (x # xs) = (if q x then f x # xs else x # updateFirst q f xs)"

definition updateOne :: "ObjectId \<Rightarrow> (Comment \<Rightarrow> Comment) \<Rightarrow> Store \<Rightarrow> Store" where
  "updateOne i f s = s\<lparr>comments := updateFirst (\<lambda>c. c_id c = i) f (comments s)\<rparr>"

text \<open>
  \<^verbatim>\<open>save()\<close> of a new document: the required \<^verbatim>\<open>content\<close> must be non-empty (it
  has been trimmed when it was set), and the server refuses a second document with the
  same \<^verbatim>\<open>_id\<close>.
\<close>

definition insertOne :: "Comment \<Rightarrow> Store \<Rightarrow> error + Store" where
  "insertOne c s =
     (if content c = [] then Inl ValidationError
      else if c_id c \<in> set (map c_id (comments s)) then Inl MongoServerError
      else Inr (s\<lparr>comments := comments s @ [c]\<rparr>))"

definition populate_user :: "Store \<Rightarrow> ObjectId \<Rightarrow> User option" where
  "populate_user s i = find (\<lambda>u. u_id u = i) (users s)"

text \<open>\<^verbatim>\<open>populate('product_id', 'name slug')\<close>: the image is not selected.\<close>

definition populate_product_name_slug :: "Store \<Rightarrow> ObjectId \<Rightarrow> Product option" where
  "populate_product_name_slug s i =
     map_option (\<lambda>p. p\<lparr>image_primary := None\<rparr>) (find (\<lambda>p. p_id p = i) (products s))"

definition populate_product :: "Store \<Rightarrow> ObjectId \<Rightarrow> Product option" where
  "populate_product s i = find (\<lambda>p. p_id p = i) (products s)"

definition lean :: "Store \<Rightarrow> (ObjectId \<Rightarrow> 'p) \<Rightarrow> Comment \<Rightarrow> 'p CommentView" where
  "lean s pop c =
     \<lparr>v_id = c_id c, v_product_id = pop (product_id c),
      v_user_id = populate_user s (user_id c), v_content = content c,
      v_parent_id = parent_id c, v_reply_count = reply_count c,
      v_created_at = created_at c\<rparr>"

subsection \<open>The notification collaborators\<close>

text \<open>The payload of \<^verbatim>\<open>notificationService.createNotification\<close>.\<close>

record NotificationMetadata =
  comment_content :: jsstring
  md_product_id :: ObjectId
  md_product_name :: jsstring
  parent_comment_id :: jsstring

record CreateNotificationDto =
  n_user_id :: ObjectId
  n_actor_id :: ObjectId
  n_type :: jsstring
  n_title :: jsstring
  n_message :: jsstring
  n_link :: jsstring
  reference_id :: jsstring
  reference_type :: jsstring
  n_metadata :: NotificationMetadata
  is_notify :: bool

text \<open>The payload of \<^verbatim>\<open>notificationRealtimeService.notifyCommentReply\<close>.\<close>

record Actor =
  actor_id :: ObjectId
  actor_name :: jsstring
  actor_avatar :: "jsstring option"

record ReplyPush =
  notificationId :: ObjectId
  r_type :: jsstring
  r_title :: jsstring
  r_message :: jsstring
  r_link :: jsstring
  r_actor :: Actor
  r_timestamp :: int
  r_product_name :: jsstring

text \<open>The calls a method makes to the two collaborators, in order.\<close>

datatype effect =
    CreateNotification CreateNotificationDto
  | NotifyCommentReply jsstring ReplyPush

text \<open>
  Modelled from the spec: \<^verbatim>\<open>NotificationService\<close> and
  \<^verbatim>\<open>NotificationRealtimeService\<close> are not among the sources
  (\<^verbatim>\<open>create_notification(payload) -> record\<close>,
  \<^verbatim>\<open>notify_comment_reply(target_user_id, payload)\<close>). What one call of
  \<^verbatim>\<open>createComment\<close> receives from outside: the \<^verbatim>\<open>_id\<close> the mapper generates for
  the new document, the clock when the document is saved and when the push is built, and
  the answer of \<^verbatim>\<open>createNotification\<close>, which is a failure or the \<^verbatim>\<open>_id\<close> of the
  persisted record. The push is not awaited and its result is not read.
\<close>

record Runtime =
  newId :: ObjectId
  savedAt :: int
  createNotification :: "CreateNotificationDto \<Rightarrow> error + ObjectId"
  pushedAt :: int

text \<open>
  The literals of the two messages, as code units:
  \<^verbatim>\<open>'Co nguoi tra loi binh luan cua ban'\<close>,
  \<^verbatim>\<open>' da tra loi binh luan cua ban ve san pham "'\<close> and \<^verbatim>\<open>' da tra loi: "'\<close>
  with their Vietnamese diacritics.
\<close>

definition reply_title :: jsstring where
  "reply_title =
     [0x43, 0xF3, 0x20, 0x6E, 0x67, 0x1B0, 0x1EDD, 0x69, 0x20, 0x74, 0x72, 0x1EA3, 0x20,
      0x6C, 0x1EDD, 0x69, 0x20, 0x62, 0xEC, 0x6E, 0x68, 0x20, 0x6C, 0x75, 0x1EAD, 0x6E,
      0x20, 0x63, 0x1EE7, 0x61, 0x20, 0x62, 0x1EA1, 0x6E]"

definition replied_about_product :: jsstring where
  "replied_about_product =
     [0x20, 0x111, 0xE3, 0x20, 0x74, 0x72, 0x1EA3, 0x20, 0x6C, 0x1EDD, 0x69, 0x20, 0x62,
      0xEC, 0x6E, 0x68, 0x20, 0x6C, 0x75, 0x1EAD, 0x6E, 0x20, 0x63, 0x1EE7, 0x61, 0x20,
      0x62, 0x1EA1, 0x6E, 0x20, 0x76, 0x1EC1, 0x20, 0x73, 0x1EA3, 0x6E, 0x20, 0x70, 0x68,
      0x1EA9, 0x6D, 0x20, 0x22]"

definition replied_colon :: jsstring where
  "replied_colon =
     [0x20, 0x111, 0xE3, 0x20, 0x74, 0x72, 0x1EA3, 0x20, 0x6C, 0x1EDD, 0x69, 0x3A, 0x20,
      0x22]"

text \<open>
  \<^verbatim>\<open>`${dto.content.substring(0, 50)}${dto.content.length > 50 ? '...' : ''}`\<close>
\<close>

definition preview :: "jsstring \<Rightarrow> jsstring" where
  "preview c = take 50 c @ (if length c > 50 then js ''...'' else [])"

definition reply_link :: "Product \<Rightarrow> jsstring \<Rightarrow> jsstring" where
  "reply_link product pid =
     js ''/products-detail/'' @ toString (p_id product) @ js ''?comment='' @ pid"

subsection \<open>createComment\<close>

text \<open>
  Lines 175-201: the parent of a reply, with its author populated. \<open>Inr None\<close> is a
  top-level comment (\<^verbatim>\<open>parentComment\<close> stays undefined).
\<close>

definition parentOf :: "Store \<Rightarrow> CreateCommentDto \<Rightarrow> error + (Comment \<times> User option) option" where
  "parentOf s dto =
     (case given (dto_parent_id dto) of
        None \<Rightarrow> Inr None
      | Some pid \<Rightarrow>
          if \<not> isValid pid then Inl (BadRequestException ''parent_id is invalid'')
          else (case findActive pid s of
                  None \<Rightarrow> Inl (NotFoundException ''Parent comment not found'')
                | Some parentComment \<Rightarrow>
                    if parent_id parentComment \<noteq> None
                    then Inl (BadRequestException
                                ''Cannot reply to a reply. Maximum 2 levels allowed'')
                    else Inr (Some (parentComment,
                                    populate_user s (user_id parentComment)))))"

text \<open>
  Lines 235-301: the notification of the parent's author. The result is the error that
  ends the method, if any, and the calls made to the collaborators. Reading a property of
  a populated reference that is null is a \<open>TypeError\<close>.
\<close>

definition replyNotification ::
  "Runtime \<Rightarrow> jsstring \<Rightarrow> CreateCommentDto \<Rightarrow> Comment \<Rightarrow> (Comment \<times> User option) option
     \<Rightarrow> (Product option) CommentView option \<Rightarrow> error option \<times> effect list" where
  "replyNotification rt userId dto comment parentComment createdComment =
     (case (given (dto_parent_id dto), parentComment, createdComment) of
        (Some pid, Some (pc, parentUser), Some created) \<Rightarrow>
          (case parentUser of
             None \<Rightarrow> (Some TypeError, [])
           | Some pu \<Rightarrow>
               let parentCommentUserId = toString (u_id pu) in
               if parentCommentUserId \<noteq> userId then
                 (case (v_user_id created, v_product_id created) of
                    (Some actor, Some product) \<Rightarrow>
                      let payload =
                            \<lparr>n_user_id = u_id pu,
                             n_actor_id = ObjectId_from userId,
                             n_type = js ''comment_reply'',
                             n_title = reply_title,
                             n_message = user_name actor @ replied_about_product
                                           @ product_name product @ js ''\"'',
                             n_link = reply_link product pid,
                             reference_id = toString (c_id comment),
                             reference_type = js ''comment'',
                             n_metadata =
                               \<lparr>comment_content = dto_content dto,
                                md_product_id = p_id product,
                                md_product_name = product_name product,
                                parent_comment_id = pid\<rparr>,
                             is_notify = False\<rparr>
                      in (case createNotification rt payload of
                            Inl e \<Rightarrow> (Some e, [CreateNotification payload])
                          | Inr nid \<Rightarrow>
                              (None,
                               [CreateNotification payload,
                                NotifyCommentReply parentCommentUserId
                                  \<lparr>notificationId = nid,
                                   r_type = js ''comment_reply'',
                                   r_title = reply_title,
                                   r_message = user_name actor @ replied_colon
                                                 @ preview (dto_content dto) @ js ''\"'',
                                   r_link = reply_link product pid,
                                   r_actor =
                                     \<lparr>actor_id = u_id actor, actor_name = user_name actor,
                                      actor_avatar = avatar actor\<rparr>,
                                   r_timestamp = pushedAt rt,
                                   r_product_name = product_name product\<rparr>]))
                  | _ \<Rightarrow> (Some TypeError, []))
               else (None, []))
      | _ \<Rightarrow> (None, []))"

text \<open>
  Lines 204-209: the new document, with the defaults of the schema; \<open>uid\<close> is
  \<^verbatim>\<open>new Types.ObjectId(userId)\<close>.
\<close>

definition newComment :: "Runtime \<Rightarrow> ObjectId \<Rightarrow> CreateCommentDto \<Rightarrow> Comment" where
  "newComment rt uid dto =
     \<lparr>c_id = newId rt,
      product_id = ObjectId_from (dto_product_id dto),
      user_id = uid,
      content = trim (dto_content dto),
      parent_id = map_option ObjectId_from (given (dto_parent_id dto)),
      replies = [],
      reply_count = 0,
      is_deleted = False,
      created_at = savedAt rt\<rparr>"

text \<open>\<^verbatim>\<open>{ $push: { replies: comment._id }, $inc: { reply_count: 1 } }\<close>\<close>

definition pushReply :: "ObjectId \<Rightarrow> Comment \<Rightarrow> Comment" where
  "pushReply i p = p\<lparr>replies := replies p @ [i], reply_count := reply_count p + 1\<rparr>"

definition createComment ::
  "Runtime \<Rightarrow> Store \<Rightarrow> jsstring \<Rightarrow> CreateCommentDto
     \<Rightarrow> (error + (Product option) CommentView option) \<times> Store \<times> effect list" where
  "createComment rt s userId dto =
     (if \<not> isValid (dto_product_id dto)
      then (Inl (BadRequestException ''product_id is invalid''), s, [])
      else
        (case parentOf s dto of
           Inl e \<Rightarrow> (Inl e, s, [])
         | Inr parentComment \<Rightarrow>
             (case newObjectId userId of
                Inl e \<Rightarrow> (Inl e, s, [])
              | Inr uid \<Rightarrow>
                  let comment = newComment rt uid dto
                  in (case insertOne comment s of
                        Inl e \<Rightarrow> (Inl e, s, [])
                      | Inr s1 \<Rightarrow>
                          let s2 = (case given (dto_parent_id dto) of
                                      None \<Rightarrow> s1
                                    | Some pid \<Rightarrow>
                                        updateOne (ObjectId_from pid)
                                          (pushReply (c_id comment)) s1);
                              createdComment =
                                map_option (lean s2 (populate_product_name_slug s2))
                                  (findById (c_id comment) s2)
                          in (case replyNotification rt userId dto comment parentComment
                                     createdComment of
                                (Some e, calls) \<Rightarrow> (Inl e, s2, calls)
                              | (None, calls) \<Rightarrow> (Inr createdComment, s2, calls))))))"

subsection \<open>updateComment\<close>

text \<open>
  \<^verbatim>\<open>comment.content = dto.content; await comment.save()\<close>: the setter trims;
  \<^verbatim>\<open>save()\<close> validates the document, modified or not (the required \<^verbatim>\<open>content\<close> must
  be non-empty), and then writes the modified paths: a value equal to the stored one
  leaves the document unmodified and nothing is written.
\<close>

definition updateComment ::
  "Store \<Rightarrow> jsstring \<Rightarrow> jsstring \<Rightarrow> UpdateCommentDto
     \<Rightarrow> (error + ObjectId CommentView option) \<times> Store" where
  "updateComment s commentId userId dto =
     (if \<not> isValid commentId then (Inl (BadRequestException ''commentId is invalid''), s)
      else
        (case findActive commentId s of
           None \<Rightarrow> (Inl (NotFoundException ''Comment not found''), s)
         | Some comment \<Rightarrow>
             if toString (user_id comment) \<noteq> userId
             then (Inl (ForbiddenException ''You are not allowed to update this comment''), s)
             else
               let newContent = (case given (upd_content dto) of
                                   None \<Rightarrow> content comment
                                 | Some t \<Rightarrow> trim t)
               in if newContent = []
                  then (Inl ValidationError, s)
                  else
                    let s1 = (if newContent = content comment then s
                              else updateOne (c_id comment)
                                     (\<lambda>c. c\<lparr>content := newContent\<rparr>) s)
                    in (Inr (map_option (lean s1 (\<lambda>i. i)) (findById (c_id comment) s1)),
                        s1)))"

subsection \<open>deleteComment\<close>

text \<open>
  The acknowledgement \<^verbatim>\<open>{ message: 'Comment deleted successfully' }\<close> is its message.
  Each of the two \<^verbatim>\<open>save()\<close> calls validates its document first: a stored
  \<^verbatim>\<open>content\<close> that is empty fails the required check, for the parent after the comment
  itself has been written.
\<close>

definition deleteComment ::
  "Store \<Rightarrow> jsstring \<Rightarrow> jsstring \<Rightarrow> bool \<Rightarrow> (error + string) \<times> Store" where
  "deleteComment s commentId userId isAdmin =
     (if \<not> isValid commentId then (Inl (BadRequestException ''commentId is invalid''), s)
      else
        (case findActive commentId s of
           None \<Rightarrow> (Inl (NotFoundException ''Comment not found''), s)
         | Some comment \<Rightarrow>
             if \<not> isAdmin \<and> toString (user_id comment) \<noteq> userId
             then (Inl (ForbiddenException ''You are not allowed to delete this comment''), s)
             else if content comment = [] then (Inl ValidationError, s)
             else
               let s1 = updateOne (c_id comment) (\<lambda>c. c\<lparr>is_deleted := True\<rparr>) s
               in (case parent_id comment of
                     None \<Rightarrow> (Inr ''Comment deleted successfully'', s1)
                   | Some pid \<Rightarrow>
                       (case findById pid s1 of
                          None \<Rightarrow> (Inr ''Comment deleted successfully'', s1)
                        | Some parentComment \<Rightarrow>
                            if content parentComment = [] then (Inl ValidationError, s1)
                            else
                              let kept = filter (\<lambda>i. toString i \<noteq> commentId)
                                           (replies parentComment)
                              in (Inr ''Comment deleted successfully'',
                                  updateOne pid
                                    (\<lambda>p. p\<lparr>replies := kept,
                                           reply_count := int (length kept)\<rparr>) s1)))))"

subsection \<open>Listings\<close>

text \<open>
  \<^verbatim>\<open>Math.ceil(total / limit)\<close> is a floating-point number: a division by zero gives
  \<^verbatim>\<open>Infinity\<close>, or \<^verbatim>\<open>NaN\<close> for \<^verbatim>\<open>0 / 0\<close>. The sign of a zero is not kept.
\<close>

datatype jsnumber = Num int | PosInfinity | NaN

definition ceil_div :: "int \<Rightarrow> int \<Rightarrow> jsnumber" where
  "ceil_div n d =
     (if d = 0 then (if n = 0 then NaN else PosInfinity) else Num (- ((- n) div d)))"

record Pagination =
  pg_total :: int
  pg_page :: int
  pg_limit :: int
  totalPages :: jsnumber

record 'a Page =
  page_comments :: "'a list"
  pagination :: Pagination

text \<open>
  \<^verbatim>\<open>.skip(skip).limit(limit)\<close> on the sorted matches: the server refuses a negative
  skip, a limit of zero is no limit, and the driver sends a negative limit as its
  absolute value.
\<close>

definition skip_limit :: "int \<Rightarrow> int \<Rightarrow> 'a list \<Rightarrow> error + 'a list" where
  "skip_limit skip lim xs =
     (if skip < 0 then Inl MongoServerError
      else Inr (let ys = drop (nat skip) xs in if lim = 0 then ys else take (nat \<bar>lim\<bar>) ys))"

text \<open>
  \<^verbatim>\<open>Promise.all([find(query)...lean(), countDocuments(query)])\<close> and the page built
  from the two answers. Documents with the same sort key stay in insertion order.
  \<open>page\<close> and \<open>limit\<close> are the numbers the method works with, its defaults 1 and 10
  standing in for absent arguments.
\<close>

definition find_page ::
  "Store \<Rightarrow> (Comment \<Rightarrow> bool) \<Rightarrow> (Comment \<Rightarrow> int) \<Rightarrow> (Comment \<Rightarrow> 'v) \<Rightarrow> int \<Rightarrow> int
     \<Rightarrow> error + 'v Page" where
  "find_page s query key view page limit =
     (let skip = (page - 1) * limit;
          matches = filter query (comments s)
      in case skip_limit skip limit (sort_key key matches) of
           Inl e \<Rightarrow> Inl e
         | Inr docs \<Rightarrow>
             Inr \<lparr>page_comments = map view docs,
                  pagination =
                    \<lparr>pg_total = int (length matches), pg_page = page, pg_limit = limit,
                     totalPages = ceil_div (int (length matches)) limit\<rparr>\<rparr>)"

definition getReplies ::
  "Store \<Rightarrow> jsstring \<Rightarrow> int \<Rightarrow> int \<Rightarrow> error + (ObjectId CommentView) Page" where
  "getReplies s commentId page limit =
     (if \<not> isValid commentId then Inl (BadRequestException ''commentId is invalid'')
      else find_page s
             (\<lambda>c. parent_id c = Some (ObjectId_from commentId) \<and> \<not> is_deleted c)
             created_at (lean s (\<lambda>i. i)) page limit)"

text \<open>
  \<^verbatim>\<open>{ $regex: search, $options: 'i' }\<close> is evaluated by the server: \<open>regex\<close> gives the
  case-insensitive matcher of a pattern, or \<open>None\<close> for a pattern the server rejects.
\<close>

definition getAllCommentsAdmin ::
  "(jsstring \<Rightarrow> (jsstring \<Rightarrow> bool) option) \<Rightarrow> Store \<Rightarrow> int \<Rightarrow> int \<Rightarrow> jsstring option
     \<Rightarrow> jsstring option \<Rightarrow> error + ((Product option) CommentView) Page" where
  "getAllCommentsAdmin regex s page limit productId search =
     (let byProduct = (case given productId of
                         None \<Rightarrow> (\<lambda>c. True)
                       | Some p \<Rightarrow>
                           if isValid p then (\<lambda>c. product_id c = ObjectId_from p)
                           else (\<lambda>c. True));
          byContent = (case given search of
                         None \<Rightarrow> Some (\<lambda>c. True)
                       | Some pat \<Rightarrow> map_option (\<lambda>m c. m (content c)) (regex pat))
      in case byContent of
           None \<Rightarrow> Inl MongoServerError
         | Some matching \<Rightarrow>
             find_page s
               (\<lambda>c. \<not> is_deleted c \<and> parent_id c = None \<and> byProduct c \<and> matching c)
               (\<lambda>c. - created_at c) (lean s (populate_product s)) page limit)"

subsection \<open>adminReplyComment\<close>

definition adminReplyComment ::
  "Runtime \<Rightarrow> Store \<Rightarrow> jsstring \<Rightarrow> jsstring \<Rightarrow> CreateCommentDto
     \<Rightarrow> (error + (Product option) CommentView option) \<times> Store \<times> effect list" where
  "adminReplyComment rt s commentId userId dto =
     (if \<not> isValid commentId then (Inl (BadRequestException ''commentId is invalid''), s, [])
      else
        (case findActive commentId s of
           None \<Rightarrow> (Inl (NotFoundException ''Comment not found''), s, [])
         | Some parentComment \<Rightarrow>
             (case populate_product_name_slug s (product_id parentComment) of
                None \<Rightarrow> (Inl TypeError, s, [])
              | Some product \<Rightarrow>
                  createComment rt s userId
                    \<lparr>dto_product_id = toString (p_id product),
                     dto_content = dto_content dto,
                     dto_parent_id = Some commentId\<rparr>)))"

section \<open>Notions used in the statements\<close>

subsection \<open>What createComment leaves behind\<close>

text \<open>
  The store after the two writes of \<^verbatim>\<open>createComment\<close> (the new document, then the
  update of the parent), and the lean comment it reads back. They name the intermediate
  values \<open>s2\<close> and \<open>createdComment\<close> of the method once its checks have passed.
\<close>

definition written :: "Runtime \<Rightarrow> Store \<Rightarrow> jsstring \<Rightarrow> CreateCommentDto \<Rightarrow> Store" where
  "written rt s userId dto =
     (let s1 = s\<lparr>comments := comments s @ [newComment rt (ObjectId_from userId) dto]\<rparr>
      in case given (dto_parent_id dto) of
           None \<Rightarrow> s1
         | Some pid \<Rightarrow> updateOne (ObjectId_from pid) (pushReply (newId rt)) s1)"

definition created_view ::
  "Runtime \<Rightarrow> Store \<Rightarrow> jsstring \<Rightarrow> CreateCommentDto \<Rightarrow> (Product option) CommentView" where
  "created_view rt s userId dto =
     lean (written rt s userId dto) (populate_product_name_slug (written rt s userId dto))
       (newComment rt (ObjectId_from userId) dto)"

subsection \<open>Invariants of the collection\<close>

text \<open>The unique index on \<^verbatim>\<open>_id\<close>.\<close>

definition unique_ids :: "Store \<Rightarrow> bool" where
  "unique_ids s \<longleftrightarrow> distinct (map c_id (comments s))"

text \<open>
  Two levels: identifiers are unique and the parent of every stored reply is a stored
  comment without a parent.
\<close>

definition two_levels :: "Store \<Rightarrow> bool" where
  "two_levels s \<longleftrightarrow>
     unique_ids s \<and>
     list_all (\<lambda>c. case parent_id c of
                     None \<Rightarrow> True
                   | Some i \<Rightarrow> (case findById i s of
                                  None \<Rightarrow> False
                                | Some p \<Rightarrow> parent_id p = None))
       (comments s)"

text \<open>The same invariant read off the pairs of identifier and parent.\<close>

definition links :: "Comment list \<Rightarrow> (ObjectId \<times> ObjectId option) list" where
  "links xs = map (\<lambda>c. (c_id c, parent_id c)) xs"

definition top_level_in :: "(ObjectId \<times> ObjectId option) list \<Rightarrow> ObjectId \<Rightarrow> bool" where
  "top_level_in kv i \<longleftrightarrow> map_option snd (find (\<lambda>p. fst p = i) kv) = Some None"

subsection \<open>A small shop\<close>

text \<open>
  The scenario of the specification: Ann comments on a pen, Bob replies, Cat looks on.
  \<open>thread\<close> is the store after Bob's reply, \<open>posted\<close> the store before it,
  \<open>removed\<close> the store in which the reply is soft-deleted and its parent untouched,
  \<open>hidden\<close> the store after Ann has deleted her comment, \<open>unlisted\<close> the store
  \<open>posted\<close> without any product document, \<open>empty_shop\<close> that store before Ann's
  comment, and \<open>forum\<close> the store \<open>thread\<close> after Cat has replied twice to Ann, the
  earlier reply being soft-deleted since, and has commented on the ink.
\<close>

definition ann :: jsstring where "ann = js ''111111111111111111111111''"

definition bob :: jsstring where "bob = js ''222222222222222222222222''"

definition cat :: jsstring where "cat = js ''333333333333333333333333''"

definition pen :: jsstring where "pen = js ''bbbbbbbbbbbbbbbbbbbbbbbb''"

definition ink :: jsstring where "ink = js ''dddddddddddddddddddddddd''"

definition idA :: jsstring where "idA = js ''aaaaaaaaaaaaaaaaaaaaaaaa''"

definition idB :: jsstring where "idB = js ''cccccccccccccccccccccccc''"

definition idB_upper :: jsstring where "idB_upper = js ''CCCCCCCCCCCCCCCCCCCCCCCC''"

definition idC :: jsstring where "idC = js ''eeeeeeeeeeeeeeeeeeeeeeee''"

definition idN :: jsstring where "idN = js ''999999999999999999999999''"

definition person :: "jsstring \<Rightarrow> string \<Rightarrow> User" where
  "person i n =
     \<lparr>u_id = ObjectId i, user_name = js n, avatar = None,
      email = js n @ js ''@shop.example'', role = js ''user''\<rparr>"

definition commentA :: Comment where
  "commentA =
     \<lparr>c_id = ObjectId idA, product_id = ObjectId pen, user_id = ObjectId ann,
      content = js ''Good product'', parent_id = None, replies = [ObjectId idB],
      reply_count = 1, is_deleted = False, created_at = 100\<rparr>"

definition commentB :: Comment where
  "commentB =
     \<lparr>c_id = ObjectId idB, product_id = ObjectId pen, user_id = ObjectId bob,
      content = js ''I agree'', parent_id = Some (ObjectId idA), replies = [],
      reply_count = 0, is_deleted = False, created_at = 200\<rparr>"

definition thread :: Store where
  "thread =
     \<lparr>comments = [commentA, commentB],
      users = [person ann ''Ann'', person bob ''Bob'', person cat ''Cat''],
      products = [\<lparr>p_id = ObjectId pen, product_name = js ''Pen'', slug = js ''pen'',
                    image_primary = None\<rparr>,
                  \<lparr>p_id = ObjectId ink, product_name = js ''Ink'', slug = js ''ink'',
                    image_primary = None\<rparr>]\<rparr>"

definition posted :: Store where
  "posted = thread\<lparr>comments := [commentA\<lparr>replies := [], reply_count := 0\<rparr>]\<rparr>"

definition removed :: Store where
  "removed = thread\<lparr>comments := [commentA, commentB\<lparr>is_deleted := True\<rparr>]\<rparr>"

definition hidden :: Store where
  "hidden = thread\<lparr>comments := [commentA\<lparr>is_deleted := True\<rparr>, commentB]\<rparr>"

definition unlisted :: Store where
  "unlisted = posted\<lparr>products := []\<rparr>"

definition empty_shop :: Store where
  "empty_shop = unlisted\<lparr>comments := []\<rparr>"

definition idF :: jsstring where "idF = js ''ffffffffffffffffffffffff''"

definition forum :: Store where
  "forum =
     thread\<lparr>comments :=
       [commentA\<lparr>replies := [ObjectId idB, ObjectId idC], reply_count := 2\<rparr>,
        commentB,
        \<lparr>c_id = ObjectId idC, product_id = ObjectId pen, user_id = ObjectId cat,
         content = js ''Me too'', parent_id = Some (ObjectId idA), replies = [],
         reply_count = 0, is_deleted = False, created_at = 150\<rparr>,
        \<lparr>c_id = ObjectId idN, product_id = ObjectId pen, user_id = ObjectId cat,
         content = js ''Spam'', parent_id = Some (ObjectId idA), replies = [],
         reply_count = 0, is_deleted = True, created_at = 120\<rparr>,
        \<lparr>c_id = ObjectId idF, product_id = ObjectId ink, user_id = ObjectId cat,
         content = js ''Dries fast'', parent_id = None, replies = [],
         reply_count = 0, is_deleted = False, created_at = 300\<rparr>]\<rparr>"

text \<open>
  One call's surroundings: the generated identifier, the time of the save, and the answer
  of the notification service, whatever the payload.
\<close>

definition runtime :: "jsstring \<Rightarrow> int \<Rightarrow> (error + ObjectId) \<Rightarrow> Runtime" where
  "runtime i t answer =
     \<lparr>newId = ObjectId i, savedAt = t, createNotification = (\<lambda>payload. answer),
      pushedAt = t + 1\<rparr>"

definition topDto :: CreateCommentDto where
  "topDto = \<lparr>dto_product_id = pen, dto_content = js ''Good product'', dto_parent_id = None\<rparr>"

definition replyDto :: CreateCommentDto where
  "replyDto = \<lparr>dto_product_id = pen, dto_content = js ''I agree'', dto_parent_id = Some idA\<rparr>"


definition longDto :: CreateCommentDto where
  "longDto =
     \<lparr>dto_product_id = pen,
      dto_content = js ''I agree with every single word of this long review, thanks!'',
      dto_parent_id = Some idA\<rparr>"

section \<open>Auxiliary facts\<close>

subsection \<open>Lists and the store\<close>

lemma find_append:
  "find q (xs @ ys) = (case find q xs of None \<Rightarrow> find q ys | Some x \<Rightarrow> Some x)"
  by (induction xs) auto

lemma find_fresh: "i \<notin> set (map g xs) \<Longrightarrow> find (\<lambda>c. g c = i) xs = None"
  by (induction xs) auto

lemma find_distinct:
  "distinct (map g xs) \<Longrightarrow> x \<in> set xs \<Longrightarrow> find (\<lambda>c. g c = g x) xs = Some x"
  by (induction xs) (auto simp: image_iff)

lemma find_updateFirst_same:
  "(\<And>x. q x \<Longrightarrow> q (f x)) \<Longrightarrow> find q (updateFirst q f xs) = map_option f (find q xs)"
  by (induction xs) auto

lemma find_updateFirst_other:
  "(\<And>x. r (f x) = r x) \<Longrightarrow> (\<And>x. r x \<Longrightarrow> \<not> q x)
     \<Longrightarrow> find r (updateFirst q f xs) = find r xs"
  by (induction xs) auto

lemma map_updateFirst:
  "(\<And>x. g (f x) = g x) \<Longrightarrow> map g (updateFirst q f xs) = map g xs"
  by (induction xs) auto

lemma c_id_newComment [simp]: "c_id (newComment rt uid dto) = newId rt"
  by (simp add: newComment_def)

lemma c_id_pushReply [simp]: "c_id (pushReply i p) = c_id p"
  by (simp add: pushReply_def)

lemma users_updateOne [simp]: "users (updateOne i f s) = users s"
  and products_updateOne [simp]: "products (updateOne i f s) = products s"
  by (simp_all add: updateOne_def)

lemma users_written [simp]: "users (written rt s userId dto) = users s"
  and products_written [simp]: "products (written rt s userId dto) = products s"
  by (simp_all add: written_def Let_def split: option.splits)

lemma findById_updateOne_same:
  "(\<And>c. c_id (f c) = c_id c) \<Longrightarrow> findById i (updateOne i f s) = map_option f (findById i s)"
  unfolding findById_def findOne_def updateOne_def
  by (simp add: find_updateFirst_same)

lemma findById_updateOne_other:
  "(\<And>c. c_id (f c) = c_id c) \<Longrightarrow> i \<noteq> j \<Longrightarrow> findById i (updateOne j f s) = findById i s"
  unfolding findById_def findOne_def updateOne_def
  by (simp, intro find_updateFirst_other) auto

lemma findActive_id:
  "findActive pid s = Some p
     \<Longrightarrow> c_id p = ObjectId_from pid \<and> \<not> is_deleted p \<and> c_id p \<in> set (map c_id (comments s))"
  unfolding findActive_def findOne_def
  by (induction "comments s" arbitrary: s) (auto simp: find_Some_iff)

lemma findActive_findById:
  assumes "unique_ids s" "findActive pid s = Some p"
  shows "findById (ObjectId_from pid) s = Some p"
proof -
  from assms(2) have "p \<in> set (comments s)" "c_id p = ObjectId_from pid"
    by (auto simp: findActive_def findOne_def find_Some_iff)
  with find_distinct[of c_id "comments s" p] assms(1) show ?thesis
    by (simp add: unique_ids_def findById_def findOne_def)
qed

lemma findById_deleted:
  assumes "unique_ids s" "findById (ObjectId_from i) s = Some c" "is_deleted c"
  shows "findActive i s = None"
proof (cases "findActive i s")
  case (Some p)
  from findActive_findById[OF assms(1) Some] assms(2) have "p = c" by simp
  with Some assms(3) show ?thesis by (auto simp: findActive_def findOne_def find_Some_iff)
qed simp

lemma populate_user_id: "populate_user s i = Some u \<Longrightarrow> u_id u = i"
  by (auto simp: populate_user_def find_Some_iff)

lemma populate_product_name_slug_id:
  "populate_product_name_slug s i = Some p \<Longrightarrow> p_id p = i"
  by (auto simp: populate_product_name_slug_def find_Some_iff)


lemma result_triple: "fst r = Inr v \<Longrightarrow> r = (Inr v, fst (snd r), snd (snd r))"
  by (cases r) auto

lemma run_triple: "r = (fst r, fst (snd r), snd (snd r))"
  by simp

subsection \<open>createComment, once its checks have passed\<close>

lemma parentOf_Inr:
  "parentOf s dto = Inr pc \<Longrightarrow>
     (case given (dto_parent_id dto) of
        None \<Rightarrow> pc = None
      | Some pid \<Rightarrow> isValid pid \<and> (\<exists>p. findActive pid s = Some p \<and> parent_id p = None
                       \<and> pc = Some (p, populate_user s (user_id p))))"
  by (auto simp: parentOf_def split: option.splits if_splits)

lemma findById_written:
  assumes "parentOf s dto = Inr pc" "newId rt \<notin> set (map c_id (comments s))"
  shows "findById (newId rt) (written rt s userId dto)
           = Some (newComment rt (ObjectId_from userId) dto)"
proof (cases "given (dto_parent_id dto)")
  case None
  then show ?thesis using assms(2)
    by (simp add: written_def findById_def findOne_def find_append find_fresh)
next
  case (Some pid)
  with parentOf_Inr[OF assms(1)] obtain p where p: "findActive pid s = Some p" by auto
  from findActive_id[OF p] assms(2) have ne: "ObjectId_from pid \<noteq> newId rt" by metis
  have "find (\<lambda>c. c_id c = newId rt)
          (updateFirst (\<lambda>c. c_id c = ObjectId_from pid) (pushReply (newId rt))
             (comments s @ [newComment rt (ObjectId_from userId) dto]))
        = find (\<lambda>c. c_id c = newId rt) (comments s @ [newComment rt (ObjectId_from userId) dto])"
    using ne by (intro find_updateFirst_other) auto
  then show ?thesis using Some assms(2)
    by (simp add: written_def findById_def findOne_def updateOne_def find_append find_fresh)
qed

lemma findById_parent_written:
  assumes "unique_ids s" "given (dto_parent_id dto) = Some pid" "findActive pid s = Some p"
  shows "findById (c_id p) (written rt s userId dto) = Some (pushReply (newId rt) p)"
proof -
  from findActive_id[OF assms(3)] have i: "c_id p = ObjectId_from pid" by simp
  from findActive_findById[OF assms(1,3)]
  have f: "find (\<lambda>c. c_id c = ObjectId_from pid) (comments s) = Some p"
    by (simp add: findById_def findOne_def)
  have "find (\<lambda>c. c_id c = ObjectId_from pid)
          (updateFirst (\<lambda>c. c_id c = ObjectId_from pid) (pushReply (newId rt))
             (comments s @ [newComment rt (ObjectId_from userId) dto]))
        = map_option (pushReply (newId rt))
            (find (\<lambda>c. c_id c = ObjectId_from pid)
               (comments s @ [newComment rt (ObjectId_from userId) dto]))"
    by (rule find_updateFirst_same) simp
  with f show ?thesis
    by (simp add: written_def assms(2) i findById_def findOne_def updateOne_def find_append)
qed

lemma createComment_written:
  assumes "isValid (dto_product_id dto)" "parentOf s dto = Inr pc" "isValid userId"
    "trim (dto_content dto) \<noteq> []" "newId rt \<notin> set (map c_id (comments s))"
  shows "createComment rt s userId dto =
     (case replyNotification rt userId dto (newComment rt (ObjectId_from userId) dto) pc
             (Some (created_view rt s userId dto)) of
        (Some e, calls) \<Rightarrow> (Inl e, written rt s userId dto, calls)
      | (None, calls) \<Rightarrow>
          (Inr (Some (created_view rt s userId dto)), written rt s userId dto, calls))"
proof -
  have ins: "insertOne (newComment rt (ObjectId_from userId) dto) s
               = Inr (s\<lparr>comments := comments s @ [newComment rt (ObjectId_from userId) dto]\<rparr>)"
    using assms(4,5) by (simp add: insertOne_def) (simp add: newComment_def)
  have w: "(case given (dto_parent_id dto) of
              None \<Rightarrow> s\<lparr>comments := comments s @ [newComment rt (ObjectId_from userId) dto]\<rparr>
            | Some pid \<Rightarrow>
                updateOne (ObjectId_from pid) (pushReply (newId rt))
                  (s\<lparr>comments := comments s @ [newComment rt (ObjectId_from userId) dto]\<rparr>))
           = written rt s userId dto"
    by (simp add: written_def Let_def)
  show ?thesis
    unfolding createComment_def Let_def c_id_newComment
    using assms(1,2,3)
    apply (simp add: newObjectId_def ins)
    unfolding w findById_written[OF assms(2,5), of userId] created_view_def option.map
    apply (rule refl)
    done
qed

lemma createComment_unwritten:
  assumes "\<not> (isValid (dto_product_id dto) \<and> (\<exists>pc. parentOf s dto = Inr pc) \<and> isValid userId
             \<and> trim (dto_content dto) \<noteq> [] \<and> newId rt \<notin> set (map c_id (comments s)))"
  shows "\<exists>e. createComment rt s userId dto = (Inl e, s, [])"
  using assms unfolding createComment_def Let_def
  by (auto simp: newObjectId_def insertOne_def newComment_def split: sum.splits)

lemma createComment_store:
  "fst (snd (createComment rt s userId dto)) = s
   \<or> (newId rt \<notin> set (map c_id (comments s)) \<and> (\<exists>pc. parentOf s dto = Inr pc)
      \<and> fst (snd (createComment rt s userId dto)) = written rt s userId dto)"
proof (cases "isValid (dto_product_id dto) \<and> (\<exists>pc. parentOf s dto = Inr pc) \<and> isValid userId
             \<and> trim (dto_content dto) \<noteq> [] \<and> newId rt \<notin> set (map c_id (comments s))")
  case True
  then obtain pc where pc: "parentOf s dto = Inr pc" by blast
  from True createComment_written[OF _ pc, where userId = userId and rt = rt]
  have "fst (snd (createComment rt s userId dto)) = written rt s userId dto"
    by (auto split: prod.splits option.splits)
  with True show ?thesis by blast
next
  case False
  from createComment_unwritten[OF this] show ?thesis by auto
qed

lemma createComment_Inr:
  assumes "createComment rt s userId dto = (Inr v, s', calls)"
  shows "isValid (dto_product_id dto) \<and> isValid userId \<and> trim (dto_content dto) \<noteq> []
         \<and> newId rt \<notin> set (map c_id (comments s)) \<and> (\<exists>pc. parentOf s dto = Inr pc)"
  using assms unfolding createComment_def
  by (auto simp: newObjectId_def insertOne_def Let_def newComment_def
           split: if_splits sum.splits option.splits)

lemma createComment_success:
  assumes "createComment rt s userId dto = (Inr v, s', calls)"
  obtains pc where "parentOf s dto = Inr pc" "newId rt \<notin> set (map c_id (comments s))"
    "isValid userId" "isValid (dto_product_id dto)" "trim (dto_content dto) \<noteq> []"
    "s' = written rt s userId dto" "v = Some (created_view rt s userId dto)"
    "replyNotification rt userId dto (newComment rt (ObjectId_from userId) dto) pc
       (Some (created_view rt s userId dto)) = (None, calls)"
proof -
  from createComment_Inr[OF assms] obtain pc where
    c: "isValid (dto_product_id dto)" "isValid userId" "trim (dto_content dto) \<noteq> []"
       "newId rt \<notin> set (map c_id (comments s))" "parentOf s dto = Inr pc" by blast
  from createComment_written[OF c(1) c(5) c(2) c(3) c(4)] assms
  have "s' = written rt s userId dto \<and> v = Some (created_view rt s userId dto)
        \<and> replyNotification rt userId dto (newComment rt (ObjectId_from userId) dto) pc
       (Some (created_view rt s userId dto)) = (None, calls)"
    by (auto split: prod.splits option.splits)
  with c that show ?thesis by blast
qed

lemma created_view_user:
  "v_user_id (created_view rt s userId dto) = populate_user s (ObjectId_from userId)"
  by (simp add: created_view_def lean_def populate_user_def newComment_def)


subsection \<open>The notification of the parent's author\<close>

lemma replyNotification_None:
  assumes "replyNotification rt userId dto comment (Some (p, parentUser)) (Some created)
             = (None, calls)"
    and "given (dto_parent_id dto) = Some pid"
  shows "\<exists>pu. parentUser = Some pu \<and>
     (toString (u_id pu) = userId \<longrightarrow> calls = []) \<and>
     (toString (u_id pu) \<noteq> userId \<longrightarrow>
        (\<exists>payload push actor product.
           calls = [CreateNotification payload, NotifyCommentReply (toString (u_id pu)) push]
           \<and> v_user_id created = Some actor \<and> v_product_id created = Some product
           \<and> createNotification rt payload = Inr (notificationId push)
           \<and> n_user_id payload = u_id pu
           \<and> n_actor_id payload = ObjectId_from userId
           \<and> comment_content (n_metadata payload) = dto_content dto
           \<and> n_link payload = reply_link product pid
           \<and> r_link push = reply_link product pid
           \<and> r_actor push = \<lparr>actor_id = u_id actor, actor_name = user_name actor,
                               actor_avatar = avatar actor\<rparr>
           \<and> r_message push
               = user_name actor @ replied_colon @ preview (dto_content dto) @ js ''\"''))"
  using assms unfolding replyNotification_def Let_def
  by (auto split: option.splits if_splits sum.splits)


lemma replyNotification_calls:
  assumes "replyNotification rt userId dto comment pc created = (eo, calls)"
    and "CreateNotification payload \<in> set calls"
    and "createNotification rt payload = Inl e"
  shows "eo = Some e \<and> calls = [CreateNotification payload]
         \<and> (\<exists>pid p pu. given (dto_parent_id dto) = Some pid \<and> pc = Some (p, pu))"
  using assms unfolding replyNotification_def Let_def
  by (auto split: option.splits if_splits sum.splits prod.splits)

subsection \<open>The depth invariant\<close>

lemma find_links:
  "map_option snd (find (\<lambda>p. fst p = i) (links xs))
     = map_option parent_id (find (\<lambda>c. c_id c = i) xs)"
  by (induction xs) (auto simp: links_def)

lemma two_levels_links:
  "two_levels s \<longleftrightarrow>
     distinct (map fst (links (comments s))) \<and>
     (\<forall>(k, par) \<in> set (links (comments s)).
        \<forall>i. par = Some i \<longrightarrow> top_level_in (links (comments s)) i)"
proof -
  have a: "map fst (links (comments s)) = map c_id (comments s)"
    by (simp add: links_def comp_def)
  have b: "top_level_in (links (comments s)) i \<longleftrightarrow>
             (case findById i s of None \<Rightarrow> False | Some p \<Rightarrow> parent_id p = None)" for i
    by (simp add: top_level_in_def find_links findById_def findOne_def split: option.splits)
  show ?thesis
    unfolding two_levels_def unique_ids_def a b
    by (auto simp: list_all_iff links_def split: option.splits)
qed

lemma two_levels_updateOne:
  assumes "\<And>c. c_id (f c) = c_id c" "\<And>c. parent_id (f c) = parent_id c" "two_levels s"
  shows "two_levels (updateOne i f s)"
proof -
  have "links (comments (updateOne i f s)) = links (comments s)"
    unfolding links_def updateOne_def using assms(1,2)
    by (simp add: map_updateFirst)
  then show ?thesis using assms(3) by (simp add: two_levels_links)
qed

lemma top_level_in_append:
  "top_level_in kv i \<Longrightarrow> top_level_in (kv @ [x]) i"
  by (auto simp: top_level_in_def find_append split: option.splits)

lemma two_levels_insert:
  assumes "two_levels s" "c_id c \<notin> set (map c_id (comments s))"
    "\<And>i. parent_id c = Some i \<Longrightarrow> \<exists>p. findById i s = Some p \<and> parent_id p = None"
  shows "two_levels (s\<lparr>comments := comments s @ [c]\<rparr>)"
proof -
  have l: "links (comments s @ [c]) = links (comments s) @ [(c_id c, parent_id c)]"
    by (simp add: links_def)
  have m: "map fst (links (comments s)) = map c_id (comments s)"
    by (simp add: links_def comp_def)
  have n: "top_level_in (links (comments s)) i" if "parent_id c = Some i" for i
    using assms(3)[OF that]
    by (auto simp: top_level_in_def find_links findById_def findOne_def)
  have o: "top_level_in (links (comments s) @ [(c_id c, parent_id c)]) i"
    if "(k, Some i) \<in> set (links (comments s))" for k i
    using assms(1) that by (intro top_level_in_append) (auto simp: two_levels_links)
  show ?thesis
    using assms(1,2) n o
    by (auto simp: two_levels_links l m intro: top_level_in_append)
qed

lemma two_levels_written:
  assumes "two_levels s" "newId rt \<notin> set (map c_id (comments s))" "parentOf s dto = Inr pc"
  shows "two_levels (written rt s userId dto)"
proof -
  let ?c = "newComment rt (ObjectId_from userId) dto"
  have u: "unique_ids s" using assms(1) by (simp add: two_levels_def)
  have par: "\<exists>p. findById i s = Some p \<and> parent_id p = None" if "parent_id ?c = Some i" for i
  proof -
    from that obtain pid where
      pid: "given (dto_parent_id dto) = Some pid" "i = ObjectId_from pid"
      by (auto simp: newComment_def)
    with parentOf_Inr[OF assms(3)] obtain p where
      "findActive pid s = Some p" "parent_id p = None"
      by auto
    with findActive_findById[OF u] pid show ?thesis by auto
  qed
  have s1: "two_levels (s\<lparr>comments := comments s @ [?c]\<rparr>)"
    using assms(1,2) par by (intro two_levels_insert) auto
  show ?thesis
    unfolding written_def Let_def using s1
    by (auto split: option.splits intro!: two_levels_updateOne simp: pushReply_def)
qed

lemma two_levels_updateComment:
  "two_levels s \<Longrightarrow> two_levels (snd (updateComment s commentId userId dto))"
  unfolding updateComment_def Let_def
  by (auto split: option.splits intro!: two_levels_updateOne)

lemma two_levels_deleteComment:
  "two_levels s \<Longrightarrow> two_levels (snd (deleteComment s commentId userId isAdmin))"
  unfolding deleteComment_def Let_def
  by (auto split: option.splits intro!: two_levels_updateOne)

lemma no_reply_of_missing:
  assumes "two_levels s" and "findById i s = None"
  shows "filter (\<lambda>c. parent_id c = Some i \<and> \<not> is_deleted c) (comments s) = []"
proof -
  have "parent_id c \<noteq> Some i" if "c \<in> set (comments s)" for c
  proof
    assume p: "parent_id c = Some i"
    from assms(1) that have "case parent_id c of None \<Rightarrow> True
        | Some j \<Rightarrow> (case findById j s of None \<Rightarrow> False | Some p \<Rightarrow> parent_id p = None)"
      by (simp add: two_levels_def list_all_iff)
    with p assms(2) show False by simp
  qed
  then show ?thesis by (auto simp: filter_empty_conv)
qed

subsection \<open>Listings\<close>

lemma find_page_error:
  "find_page s q key view page limit = Inl e \<Longrightarrow> e = MongoServerError"
  unfolding find_page_def skip_limit_def Let_def
  by (auto split: if_splits sum.splits)

lemma find_page_no_match:
  assumes "0 \<le> (page - 1) * limit" and "filter q (comments s) = []"
  shows "find_page s q key view page limit
     = Inr \<lparr>page_comments = [],
            pagination = \<lparr>pg_total = 0, pg_page = page, pg_limit = limit,
                          totalPages = ceil_div 0 limit\<rparr>\<rparr>"
  using assms unfolding find_page_def skip_limit_def Let_def by simp

lemma find_page_eq:
  "find_page s q key view page limit =
     (let matches = filter q (comments s);
          rest = drop (nat ((page - 1) * limit)) (sort_key key matches)
      in if (page - 1) * limit < 0 then Inl MongoServerError
         else Inr \<lparr>page_comments = map view (if limit = 0 then rest else take (nat \<bar>limit\<bar>) rest),
                   pagination = \<lparr>pg_total = int (length matches), pg_page = page,
                                 pg_limit = limit,
                                 totalPages = ceil_div (int (length matches)) limit\<rparr>\<rparr>)"
  unfolding find_page_def skip_limit_def Let_def by simp

lemma getAllCommentsAdmin_error:
  "getAllCommentsAdmin regex s page limit productId search = Inl e \<Longrightarrow> e = MongoServerError"
  unfolding getAllCommentsAdmin_def Let_def
  by (auto split: option.splits dest: find_page_error)

subsection \<open>What deleteComment and adminReplyComment do on the identifiers they expect\<close>

text \<open>
  The recount of \<^verbatim>\<open>deleteComment\<close>, on documents that pass validation: the parent
  keeps the identifiers whose printed form differs from the string the caller sent, and
  counts them. The deleted identifier is among the dropped ones when the caller sent it as
  it prints.
\<close>

lemma deleteComment_recount:
  assumes "isValid commentId" and "findActive commentId s = Some c"
    and "isAdmin \<or> toString (user_id c) = userId"
    and "parent_id c = Some pid" and "pid \<noteq> c_id c" and "findById pid s = Some p"
    and "content c \<noteq> []" and "content p \<noteq> []"
  shows "\<exists>p'. deleteComment s commentId userId isAdmin
                = (Inr ''Comment deleted successfully'',
                   snd (deleteComment s commentId userId isAdmin))
            \<and> findById pid (snd (deleteComment s commentId userId isAdmin)) = Some p'
            \<and> replies p' = filter (\<lambda>i. toString i \<noteq> commentId) (replies p)
            \<and> reply_count p' = int (length (replies p'))
            \<and> (toString (c_id c) = commentId \<longrightarrow> c_id c \<notin> set (replies p'))"
proof -
  let ?s1 = "updateOne (c_id c) (\<lambda>c. c\<lparr>is_deleted := True\<rparr>) s"
  let ?kept = "filter (\<lambda>i. toString i \<noteq> commentId) (replies p)"
  let ?f = "\<lambda>p. p\<lparr>replies := ?kept, reply_count := int (length ?kept)\<rparr>"
  have p1: "findById pid ?s1 = Some p"
    using assms(5,6) by (simp add: findById_updateOne_other)
  have d: "deleteComment s commentId userId isAdmin
             = (Inr ''Comment deleted successfully'', updateOne pid ?f ?s1)"
    using assms(1,2,3,4,7,8) p1 by (auto simp: deleteComment_def Let_def)
  have "findById pid (updateOne pid ?f ?s1) = Some (?f p)"
    using p1 by (simp add: findById_updateOne_same)
  then show ?thesis unfolding d by auto
qed

text \<open>
  \<^verbatim>\<open>adminReplyComment\<close> forwards to \<^verbatim>\<open>createComment\<close> when the product of the target
  comment exists.
\<close>

lemma adminReplyComment_forwards:
  assumes "isValid commentId" and "findActive commentId s = Some c"
    and "populate_product_name_slug s (product_id c) = Some product"
  shows "adminReplyComment rt s commentId userId dto
           = createComment rt s userId
               \<lparr>dto_product_id = toString (product_id c), dto_content = dto_content dto,
                dto_parent_id = Some commentId\<rparr>"
  using assms populate_product_name_slug_id[OF assms(3)]
  by (simp add: adminReplyComment_def)

subsection \<open>The small shop, evaluated\<close>

lemmas example_defs = ann_def bob_def cat_def pen_def ink_def idA_def idB_def idC_def idN_def
  person_def commentA_def commentB_def thread_def posted_def runtime_def js_def

lemmas eval_defs = isValid_def isHexDigit_def lowerHex_def ObjectId_from_def findActive_def
  findOne_def findById_def given_def

lemmas create_defs = createComment_def parentOf_def newObjectId_def insertOne_def
  newComment_def pushReply_def updateOne_def replyNotification_def lean_def
  populate_user_def populate_product_name_slug_def trim_def isWhiteSpace_def Let_def

lemmas listing_defs = getReplies_def getAllCommentsAdmin_def find_page_def skip_limit_def
  ceil_div_def lean_def populate_user_def populate_product_def Let_def

lemma unique_ids_thread: "unique_ids thread"
  by (simp add: unique_ids_def example_defs)

lemma unique_ids_posted: "unique_ids posted"
  by (simp add: unique_ids_def example_defs)

lemma two_levels_thread: "two_levels thread"
  by (simp add: two_levels_def unique_ids_def example_defs eval_defs)

lemma findActive_thread_A: "findActive idA thread = Some commentA"
  by (simp add: example_defs eval_defs)

lemma findActive_thread_B: "findActive idB thread = Some commentB"
  by (simp add: example_defs eval_defs)

lemma findActive_posted_A:
  "findActive idA posted = Some (commentA\<lparr>replies := [], reply_count := 0\<rparr>)"
  by (simp add: example_defs eval_defs)

lemma author_of_posted_A:
  "toString (user_id (commentA\<lparr>replies := [], reply_count := 0\<rparr>)) = ann"
  "user_id (commentA\<lparr>replies := [], reply_count := 0\<rparr>) = ObjectId ann"
  by (simp_all add: commentA_def)

lemma populate_user_posted_bob:
  "populate_user posted (ObjectId_from bob) = Some (person bob ''Bob'')"
  by (simp add: populate_user_def example_defs eval_defs)

lemma ann_not_bob: "ann \<noteq> bob"
  by (simp add: ann_def bob_def js_def)

lemma ObjectId_from_bob: "ObjectId_from bob = ObjectId bob"
  by (simp add: example_defs eval_defs)

lemma newId_runtime: "newId (runtime i t answer) = ObjectId i"
  by (simp add: runtime_def)

lemma given_topDto: "given (dto_parent_id topDto) = None"
  by (simp add: topDto_def given_def)

lemma given_replyDto: "given (dto_parent_id replyDto) = Some idA"
  by (simp add: replyDto_def given_def idA_def js_def)

lemma given_longDto: "given (dto_parent_id longDto) = Some idA"
  by (simp add: longDto_def given_def idA_def js_def)

lemma top_by_cat_result:
  "\<exists>v. fst (createComment (runtime idC 300 (Inr (ObjectId idN))) thread cat topDto) = Inr v"
  by (simp add: create_defs example_defs eval_defs topDto_def)

lemma reply_by_bob_result:
  "\<exists>v. fst (createComment (runtime idB 200 (Inr (ObjectId idN))) posted bob replyDto) = Inr v"
  by (simp add: create_defs example_defs eval_defs replyDto_def)

lemma reply_by_ann_result:
  "\<exists>v. fst (createComment (runtime idB 200 (Inr (ObjectId idN))) posted ann replyDto) = Inr v"
  by (simp add: create_defs example_defs eval_defs replyDto_def)

lemma long_reply_result:
  "\<exists>v. fst (createComment (runtime idB 200 (Inr (ObjectId idN))) posted bob longDto) = Inr v"
  by (simp add: create_defs example_defs eval_defs longDto_def)

lemma failed_reply_calls:
  "\<exists>payload.
     snd (snd (createComment (runtime idB 200 (Inl MongoServerError)) posted bob replyDto))
       = [CreateNotification payload]"
  by (simp add: create_defs example_defs eval_defs replyDto_def)

section \<open>The claims\<close>

subsection \<open>C1\<close>

text \<open>
  C1 (as amended). A failure of \<^verbatim>\<open>createNotification\<close> is not swallowed: the call is
  awaited with no handler around it, so whenever \<^verbatim>\<open>createComment\<close> has called
  \<^verbatim>\<open>createNotification\<close> and that call failed with \<open>e\<close>, \<^verbatim>\<open>createComment\<close> fails
  with \<open>e\<close> and the push is not sent. Nothing is rolled back: the reply is in the store,
  not deleted, with the trimmed content and the parent it was given, and (identifiers
  being unique) the parent has the reply appended and its counter increased by one.
\<close>

theorem notification_failure_propagates:
  assumes "createComment rt s userId dto = (res, s', calls)"
    and "CreateNotification payload \<in> set calls"
    and "createNotification rt payload = Inl e"
  shows "res = Inl e \<and> calls = [CreateNotification payload]
       \<and> (\<exists>pid p c. given (dto_parent_id dto) = Some pid \<and> findActive pid s = Some p
             \<and> findById (newId rt) s' = Some c \<and> parent_id c = Some (c_id p)
             \<and> \<not> is_deleted c \<and> content c = trim (dto_content dto)
             \<and> (unique_ids s \<longrightarrow>
                  findById (c_id p) s'
                    = Some (p\<lparr>replies := replies p @ [newId rt],
                              reply_count := reply_count p + 1\<rparr>)))"
proof -
  let ?c = "newComment rt (ObjectId_from userId) dto"
  from assms(1,2) have "\<not> (\<exists>e. createComment rt s userId dto = (Inl e, s, []))" by auto
  with createComment_unwritten[of dto s userId rt] obtain pc where
    c: "isValid (dto_product_id dto)" "parentOf s dto = Inr pc" "isValid userId"
       "trim (dto_content dto) \<noteq> []" "newId rt \<notin> set (map c_id (comments s))"
    by blast
  obtain eo calls' where n: "replyNotification rt userId dto ?c pc
         (Some (created_view rt s userId dto)) = (eo, calls')"
    by (cases "replyNotification rt userId dto ?c pc (Some (created_view rt s userId dto))")
  from createComment_written[OF c(1,2,3,4,5)] n assms(1)
  have r: "calls = calls'" "s' = written rt s userId dto"
    "res = (case eo of Some e \<Rightarrow> Inl e | None \<Rightarrow> Inr (Some (created_view rt s userId dto)))"
    by (auto split: option.splits)
  from replyNotification_calls[OF n assms(2)[unfolded r(1)] assms(3)] obtain pid p pu where
    k: "eo = Some e" "calls' = [CreateNotification payload]"
       "given (dto_parent_id dto) = Some pid" "pc = Some (p, pu)"
    by blast
  from parentOf_Inr[OF c(2)] k(3,4) have p: "findActive pid s = Some p" by auto
  from findActive_id[OF p] have i: "c_id p = ObjectId_from pid" by simp
  have new: "findById (newId rt) s' = Some ?c"
    unfolding r(2) by (rule findById_written[OF c(2,5)])
  have f: "parent_id ?c = Some (c_id p)" "\<not> is_deleted ?c" "content ?c = trim (dto_content dto)"
    by (simp_all add: newComment_def k(3) i)
  have par: "unique_ids s \<longrightarrow> findById (c_id p) s'
                    = Some (p\<lparr>replies := replies p @ [newId rt],
                              reply_count := reply_count p + 1\<rparr>)"
    using findById_parent_written[OF _ k(3) p, of rt userId]
    by (simp add: r(2) pushReply_def)
  from r k have "res = Inl e" "calls = [CreateNotification payload]" by simp_all
  with k(3) p new f par show ?thesis by blast
qed

theorem notification_failure_propagates_witness:
  "fst (createComment (runtime idB 200 (Inl MongoServerError)) posted bob replyDto)
     = Inl MongoServerError
   \<and> (\<exists>payload. snd (snd (createComment (runtime idB 200 (Inl MongoServerError)) posted bob replyDto))
          = [CreateNotification payload])
   \<and> (\<exists>c. findById (ObjectId idB)
             (fst (snd (createComment (runtime idB 200 (Inl MongoServerError)) posted bob replyDto)))
           = Some c \<and> parent_id c = Some (ObjectId idA) \<and> \<not> is_deleted c
           \<and> content c = js ''I agree'')
   \<and> findById (ObjectId idA)
         (fst (snd (createComment (runtime idB 200 (Inl MongoServerError)) posted bob replyDto)))
       = Some commentA"
proof -
  let ?rt = "runtime idB 200 (Inl MongoServerError)"
  let ?run = "createComment ?rt posted bob replyDto"
  let ?A = "commentA\<lparr>replies := [], reply_count := 0\<rparr>"
  from failed_reply_calls obtain payload where
    calls: "snd (snd ?run) = [CreateNotification payload]" ..
  then have m: "CreateNotification payload \<in> set (snd (snd ?run))" by simp
  have f: "createNotification ?rt payload = Inl MongoServerError" by (simp add: runtime_def)
  from notification_failure_propagates[OF run_triple m f, unfolded newId_runtime]
  obtain pid p c where r: "fst ?run = Inl MongoServerError"
    and g: "given (dto_parent_id replyDto) = Some pid" and p: "findActive pid posted = Some p"
    and c: "findById (ObjectId idB) (fst (snd ?run)) = Some c" "parent_id c = Some (c_id p)"
           "\<not> is_deleted c" "content c = trim (dto_content replyDto)"
    and par: "unique_ids posted \<longrightarrow> findById (c_id p) (fst (snd ?run))
                = Some (p\<lparr>replies := replies p @ [ObjectId idB], reply_count := reply_count p + 1\<rparr>)"
    by (elim exE conjE)
  from g have "pid = idA" by (simp add: given_replyDto)
  with p have p': "p = ?A" by (simp add: findActive_posted_A)
  have i: "c_id p = ObjectId idA" by (simp add: p' commentA_def)
  have u: "p\<lparr>replies := replies p @ [ObjectId idB], reply_count := reply_count p + 1\<rparr> = commentA"
    unfolding p' by (simp add: commentA_def)
  have t: "trim (dto_content replyDto) = js ''I agree''"
    by (simp add: replyDto_def trim_def isWhiteSpace_def js_def)
  from c have new: "\<exists>c. findById (ObjectId idB) (fst (snd ?run)) = Some c
           \<and> parent_id c = Some (ObjectId idA) \<and> \<not> is_deleted c \<and> content c = js ''I agree''"
    unfolding i t by (intro exI conjI)
  from par[rule_format, OF unique_ids_posted]
  have "findById (ObjectId idA) (fst (snd ?run)) = Some commentA"
    unfolding i u .
  moreover from calls have "\<exists>payload. snd (snd ?run) = [CreateNotification payload]" ..
  ultimately show ?thesis using r new by (intro conjI)
qed

theorem notification_failure_counterexample:
  "fst (createComment (runtime idB 200 (Inl MongoServerError)) posted bob replyDto)
     = Inl MongoServerError"
  by (simp add: create_defs example_defs eval_defs replyDto_def)

subsection \<open>C2\<close>

text \<open>
  C2. A reply to a reply is refused: when \<^verbatim>\<open>parent_id\<close> is a well-formed identifier of a
  comment that is not deleted and has a parent itself, \<^verbatim>\<open>createComment\<close> fails with a
  \<open>BadRequestException\<close>, leaves the store as it was and calls no collaborator; once
  \<^verbatim>\<open>product_id\<close> has passed its own check the message is the one about two levels.
  Hence the depth invariant \<open>two_levels\<close> (identifiers are unique and the parent of every
  stored reply is a stored top-level comment) is kept by every method that writes.
\<close>

theorem reply_to_reply_rejected:
  "(isValid pid \<and> dto_parent_id dto = Some pid \<and> findActive pid s = Some p \<and> parent_id p \<noteq> None
      \<longrightarrow> (\<exists>msg. createComment rt s userId dto = (Inl (BadRequestException msg), s, [])
                 \<and> (isValid (dto_product_id dto)
                      \<longrightarrow> msg = ''Cannot reply to a reply. Maximum 2 levels allowed'')))
   \<and> (two_levels s
      \<longrightarrow> two_levels (fst (snd (createComment rt s userId dto)))
          \<and> two_levels (snd (updateComment s commentId requester upd))
          \<and> two_levels (snd (deleteComment s commentId requester isAdmin)))"
proof (intro conjI impI)
  assume a: "isValid pid \<and> dto_parent_id dto = Some pid \<and> findActive pid s = Some p \<and> parent_id p \<noteq> None"
  then have "pid \<noteq> []" by (auto simp: isValid_def)
  with a have "parentOf s dto = Inl (BadRequestException ''Cannot reply to a reply. Maximum 2 levels allowed'')"
    by (auto simp: parentOf_def given_def)
  then show "\<exists>msg. createComment rt s userId dto = (Inl (BadRequestException msg), s, [])
                 \<and> (isValid (dto_product_id dto)
                      \<longrightarrow> msg = ''Cannot reply to a reply. Maximum 2 levels allowed'')"
    by (simp add: createComment_def)
next
  assume t: "two_levels s"
  from createComment_store[of rt s userId dto] two_levels_written[OF t] t
  show "two_levels (fst (snd (createComment rt s userId dto)))" by auto
  from t show "two_levels (snd (updateComment s commentId requester upd))"
    by (rule two_levels_updateComment)
  from t show "two_levels (snd (deleteComment s commentId requester isAdmin))"
    by (rule two_levels_deleteComment)
qed

theorem reply_to_reply_rejected_witness:
  "createComment (runtime idC 300 (Inr (ObjectId idN))) thread cat
     \<lparr>dto_product_id = pen, dto_content = js ''Me too'', dto_parent_id = Some idB\<rparr>
     = (Inl (BadRequestException ''Cannot reply to a reply. Maximum 2 levels allowed''), thread, [])
   \<and> two_levels thread
   \<and> two_levels (fst (snd (createComment (runtime idC 300 (Inr (ObjectId idN))) thread cat
        \<lparr>dto_product_id = pen, dto_content = js ''Me too'', dto_parent_id = Some idB\<rparr>)))
   \<and> two_levels (snd (updateComment thread idB bob \<lparr>upd_content = Some (js ''I agree!'')\<rparr>))
   \<and> two_levels (snd (deleteComment thread idB bob False))"
proof -
  have v: "isValid idB" "isValid pen" by (simp_all add: example_defs eval_defs)
  have p: "parent_id commentB \<noteq> None" by (simp add: commentB_def)
  from reply_to_reply_rejected[where pid = idB and s = thread and p = commentB
      and dto = "\<lparr>dto_product_id = pen, dto_content = js ''Me too'', dto_parent_id = Some idB\<rparr>"
      and rt = "runtime idC 300 (Inr (ObjectId idN))" and userId = cat and commentId = idB
      and requester = bob and upd = "\<lparr>upd_content = Some (js ''I agree!'')\<rparr>" and isAdmin = False]
    v p findActive_thread_B two_levels_thread
  show ?thesis by auto
qed

subsection \<open>C3\<close>

text \<open>
  C3. After a successful \<^verbatim>\<open>createComment\<close> on a store with unique identifiers: without a
  (truthy) \<^verbatim>\<open>parent_id\<close> the stored document has no parent, no replies, a counter of 0 and
  is not deleted; with a \<^verbatim>\<open>parent_id\<close> the parent was a top-level comment that is not
  deleted, the new document is stored with that parent, \<^verbatim>\<open>reply_count = 0\<close>,
  \<^verbatim>\<open>replies = []\<close> and \<^verbatim>\<open>is_deleted = false\<close>, and the parent is what it was except
  that \<^verbatim>\<open>replies\<close> has the new identifier appended and \<^verbatim>\<open>reply_count\<close> is one more.
\<close>

theorem createComment_counters:
  assumes "unique_ids s" and "createComment rt s userId dto = (Inr v, s', calls)"
  shows "(given (dto_parent_id dto) = None \<longrightarrow>
            (\<exists>c. findById (newId rt) s' = Some c \<and> parent_id c = None \<and> reply_count c = 0
                 \<and> replies c = [] \<and> \<not> is_deleted c))
       \<and> (\<forall>pid. given (dto_parent_id dto) = Some pid \<longrightarrow>
            (\<exists>p c. findActive pid s = Some p \<and> parent_id p = None
                 \<and> findById (newId rt) s' = Some c \<and> parent_id c = Some (c_id p)
                 \<and> reply_count c = 0 \<and> replies c = [] \<and> \<not> is_deleted c
                 \<and> findById (c_id p) s'
                     = Some (p\<lparr>replies := replies p @ [newId rt],
                               reply_count := reply_count p + 1\<rparr>)))"
proof -
  from assms(2) obtain pc where pc: "parentOf s dto = Inr pc"
    and fresh: "newId rt \<notin> set (map c_id (comments s))"
    and s': "s' = written rt s userId dto"
    by (rule createComment_success)
  let ?c = "newComment rt (ObjectId_from userId) dto"
  have new: "findById (newId rt) s' = Some ?c"
    unfolding s' by (rule findById_written[OF pc fresh])
  have top: "given (dto_parent_id dto) = None \<longrightarrow>
            (\<exists>c. findById (newId rt) s' = Some c \<and> parent_id c = None \<and> reply_count c = 0
                 \<and> replies c = [] \<and> \<not> is_deleted c)"
    using new by (simp add: newComment_def)
  have reply: "\<exists>p c. findActive pid s = Some p \<and> parent_id p = None
                 \<and> findById (newId rt) s' = Some c \<and> parent_id c = Some (c_id p)
                 \<and> reply_count c = 0 \<and> replies c = [] \<and> \<not> is_deleted c
                 \<and> findById (c_id p) s'
                     = Some (p\<lparr>replies := replies p @ [newId rt],
                               reply_count := reply_count p + 1\<rparr>)"
    if g: "given (dto_parent_id dto) = Some pid" for pid
  proof -
    from parentOf_Inr[OF pc] g obtain p where p: "findActive pid s = Some p" "parent_id p = None"
      by auto
    from findActive_id[OF p(1)] have i: "c_id p = ObjectId_from pid" by simp
    have "parent_id ?c = Some (c_id p)" by (simp add: newComment_def g i)
    moreover have "reply_count ?c = 0" "replies ?c = []" "\<not> is_deleted ?c"
      by (simp_all add: newComment_def)
    moreover from findById_parent_written[OF assms(1) g p(1), of rt userId]
    have "findById (c_id p) s' = Some (p\<lparr>replies := replies p @ [newId rt],
                               reply_count := reply_count p + 1\<rparr>)"
      by (simp add: s' pushReply_def)
    ultimately show ?thesis using p new by blast
  qed
  from top reply show ?thesis by blast
qed

theorem createComment_counters_witness:
  "(\<exists>c. findById (ObjectId idC)
           (fst (snd (createComment (runtime idC 300 (Inr (ObjectId idN))) thread cat topDto)))
         = Some c \<and> parent_id c = None \<and> reply_count c = 0)
   \<and> (\<exists>c. findById (ObjectId idB)
           (fst (snd (createComment (runtime idB 200 (Inr (ObjectId idN))) posted bob replyDto)))
         = Some c \<and> parent_id c = Some (ObjectId idA) \<and> reply_count c = 0 \<and> replies c = []
         \<and> \<not> is_deleted c)
   \<and> findById (ObjectId idA)
           (fst (snd (createComment (runtime idB 200 (Inr (ObjectId idN))) posted bob replyDto)))
         = Some commentA"
proof -
  let ?top = "createComment (runtime idC 300 (Inr (ObjectId idN))) thread cat topDto"
  let ?reply = "createComment (runtime idB 200 (Inr (ObjectId idN))) posted bob replyDto"
  from top_by_cat_result obtain v where "fst ?top = Inr v" ..
  then have "?top = (Inr v, fst (snd ?top), snd (snd ?top))"
    by (rule result_triple)
  note createComment_counters[OF unique_ids_thread this, THEN conjunct1, rule_format,
      OF given_topDto, unfolded newId_runtime]
  then obtain c where "findById (ObjectId idC) (fst (snd ?top)) = Some c"
    "parent_id c = None" "reply_count c = 0"
    by (elim exE conjE)
  then have top: "\<exists>c. findById (ObjectId idC) (fst (snd ?top)) = Some c \<and> parent_id c = None
                    \<and> reply_count c = 0"
    by (intro exI conjI)
  from reply_by_bob_result obtain w where "fst ?reply = Inr w" ..
  then have "?reply = (Inr w, fst (snd ?reply), snd (snd ?reply))"
    by (rule result_triple)
  note createComment_counters[OF unique_ids_posted this, THEN conjunct2, rule_format,
      OF given_replyDto, unfolded newId_runtime]
  then obtain p c where p: "findActive idA posted = Some p"
    and c: "findById (ObjectId idB) (fst (snd ?reply)) = Some c" "parent_id c = Some (c_id p)"
       "reply_count c = 0" "replies c = []" "\<not> is_deleted c"
    and par: "findById (c_id p) (fst (snd ?reply))
                = Some (p\<lparr>replies := replies p @ [ObjectId idB], reply_count := reply_count p + 1\<rparr>)"
    by (elim exE conjE)
  from p have p': "p = commentA\<lparr>replies := [], reply_count := 0\<rparr>"
    by (simp add: findActive_posted_A)
  have i: "c_id p = ObjectId idA" by (simp add: p' commentA_def)
  have u: "p\<lparr>replies := replies p @ [ObjectId idB], reply_count := reply_count p + 1\<rparr> = commentA"
    unfolding p' by (simp add: commentA_def)
  from c have reply: "\<exists>c. findById (ObjectId idB) (fst (snd ?reply)) = Some c
         \<and> parent_id c = Some (ObjectId idA) \<and> reply_count c = 0 \<and> replies c = []
         \<and> \<not> is_deleted c"
    unfolding i by (intro exI conjI)
  from par have "findById (ObjectId idA) (fst (snd ?reply)) = Some commentA"
    unfolding i u .
  with top reply show ?thesis by (intro conjI)
qed

subsection \<open>C4\<close>

text \<open>
  C4. The recount of \<^verbatim>\<open>deleteComment\<close> compares the printed identifiers in
  \<^verbatim>\<open>replies\<close> with the string the caller sent, not with the identifier of the comment it
  has just deleted. Bob deletes his reply twice over: sent as it prints, the identifier
  leaves the parent's \<^verbatim>\<open>replies\<close> and the counter goes to 0; sent in upper case, which
  names the same comment, the reply is soft-deleted all the same but the parent keeps the
  identifier and a counter of 1.
\<close>

theorem recount_misses_other_spelling:
  "isValid idB \<and> isValid idB_upper
   \<and> findActive idB thread = Some commentB
   \<and> findActive idB_upper thread = Some commentB
   \<and> deleteComment thread idB bob False
       = (Inr ''Comment deleted successfully'',
          thread\<lparr>comments := [commentA\<lparr>replies := [], reply_count := 0\<rparr>,
                               commentB\<lparr>is_deleted := True\<rparr>]\<rparr>)
   \<and> deleteComment thread idB_upper bob False
       = (Inr ''Comment deleted successfully'',
          thread\<lparr>comments := [commentA, commentB\<lparr>is_deleted := True\<rparr>]\<rparr>)
   \<and> replies commentA = [ObjectId idB] \<and> reply_count commentA = 1"
  by (simp add: deleteComment_def updateOne_def idB_upper_def example_defs eval_defs)

subsection \<open>C5\<close>

text \<open>
  C5. After a successful reply: when the parent's author prints as the replying user's
  identifier no collaborator is called; otherwise exactly two calls are made, in this
  order: one \<^verbatim>\<open>createNotification\<close>, which succeeded, addressed to the parent's author with
  the replying user as actor, and one \<^verbatim>\<open>notifyCommentReply\<close> to the parent's author
  carrying the identifier of the persisted notification, the actor (identifier, name and
  avatar of the replying user) and a message that ends with the first 50 code units of the
  content sent, followed by \<^verbatim>\<open>...\<close> when the content is longer than 50.
\<close>

theorem reply_notification:
  assumes "createComment rt s userId dto = (Inr v, s', calls)"
    and "given (dto_parent_id dto) = Some pid"
  shows "\<exists>p. findActive pid s = Some p \<and>
     (toString (user_id p) = userId \<longrightarrow> calls = []) \<and>
     (toString (user_id p) \<noteq> userId \<longrightarrow>
        (\<exists>payload push actor.
           calls = [CreateNotification payload, NotifyCommentReply (toString (user_id p)) push]
           \<and> createNotification rt payload = Inr (notificationId push)
           \<and> n_user_id payload = user_id p
           \<and> n_actor_id payload = ObjectId_from userId
           \<and> populate_user s (ObjectId_from userId) = Some actor
           \<and> r_actor push = \<lparr>actor_id = ObjectId_from userId, actor_name = user_name actor,
                               actor_avatar = avatar actor\<rparr>
           \<and> r_message push
               = user_name actor @ replied_colon @ take 50 (dto_content dto)
                   @ (if 50 < length (dto_content dto) then js ''...'' else []) @ js ''\"''))"
proof -
  from assms(1) obtain pc where pc: "parentOf s dto = Inr pc"
    and n: "replyNotification rt userId dto (newComment rt (ObjectId_from userId) dto) pc
              (Some (created_view rt s userId dto)) = (None, calls)"
    by (rule createComment_success)
  from parentOf_Inr[OF pc] assms(2) obtain p where p: "findActive pid s = Some p"
    and pc': "pc = Some (p, populate_user s (user_id p))" by auto
  from replyNotification_None[OF n[unfolded pc'] assms(2)] obtain pu where
    pu: "populate_user s (user_id p) = Some pu"
    and self: "toString (u_id pu) = userId \<longrightarrow> calls = []"
    and other: "toString (u_id pu) \<noteq> userId \<longrightarrow>
        (\<exists>payload push actor product.
           calls = [CreateNotification payload, NotifyCommentReply (toString (u_id pu)) push]
           \<and> v_user_id (created_view rt s userId dto) = Some actor
           \<and> v_product_id (created_view rt s userId dto) = Some product
           \<and> createNotification rt payload = Inr (notificationId push)
           \<and> n_user_id payload = u_id pu
           \<and> n_actor_id payload = ObjectId_from userId
           \<and> comment_content (n_metadata payload) = dto_content dto
           \<and> n_link payload = reply_link product pid
           \<and> r_link push = reply_link product pid
           \<and> r_actor push = \<lparr>actor_id = u_id actor, actor_name = user_name actor,
                               actor_avatar = avatar actor\<rparr>
           \<and> r_message push = user_name actor @ replied_colon @ preview (dto_content dto) @ js ''\"'')"
    by blast
  have id: "u_id pu = user_id p" by (rule populate_user_id[OF pu])
  have "toString (user_id p) \<noteq> userId \<longrightarrow>
        (\<exists>payload push actor.
           calls = [CreateNotification payload, NotifyCommentReply (toString (user_id p)) push]
           \<and> createNotification rt payload = Inr (notificationId push)
           \<and> n_user_id payload = user_id p
           \<and> n_actor_id payload = ObjectId_from userId
           \<and> populate_user s (ObjectId_from userId) = Some actor
           \<and> r_actor push = \<lparr>actor_id = ObjectId_from userId, actor_name = user_name actor,
                               actor_avatar = avatar actor\<rparr>
           \<and> r_message push
               = user_name actor @ replied_colon @ take 50 (dto_content dto)
                   @ (if 50 < length (dto_content dto) then js ''...'' else []) @ js ''\"'')"
  proof
    assume "toString (user_id p) \<noteq> userId"
    with other id obtain payload push actor where
      c: "calls = [CreateNotification payload, NotifyCommentReply (toString (user_id p)) push]"
         "v_user_id (created_view rt s userId dto) = Some actor"
         "createNotification rt payload = Inr (notificationId push)"
         "n_user_id payload = user_id p" "n_actor_id payload = ObjectId_from userId"
         "r_actor push = \<lparr>actor_id = u_id actor, actor_name = user_name actor,
                               actor_avatar = avatar actor\<rparr>"
         "r_message push = user_name actor @ replied_colon @ preview (dto_content dto) @ js ''\"''"
      by auto
    from c(2) have a: "populate_user s (ObjectId_from userId) = Some actor"
      by (simp add: created_view_user)
    from populate_user_id[OF a] c a
    show "\<exists>payload push actor.
           calls = [CreateNotification payload, NotifyCommentReply (toString (user_id p)) push]
           \<and> createNotification rt payload = Inr (notificationId push)
           \<and> n_user_id payload = user_id p
           \<and> n_actor_id payload = ObjectId_from userId
           \<and> populate_user s (ObjectId_from userId) = Some actor
           \<and> r_actor push = \<lparr>actor_id = ObjectId_from userId, actor_name = user_name actor,
                               actor_avatar = avatar actor\<rparr>
           \<and> r_message push
               = user_name actor @ replied_colon @ take 50 (dto_content dto)
                   @ (if 50 < length (dto_content dto) then js ''...'' else []) @ js ''\"''"
      by (auto simp: preview_def)
  qed
  with p self id show ?thesis by auto
qed

theorem reply_notification_witness:
  "snd (snd (createComment (runtime idB 200 (Inr (ObjectId idN))) posted ann replyDto)) = []
   \<and> (\<exists>payload push.
         snd (snd (createComment (runtime idB 200 (Inr (ObjectId idN))) posted bob replyDto))
           = [CreateNotification payload, NotifyCommentReply ann push]
         \<and> n_user_id payload = ObjectId ann \<and> n_actor_id payload = ObjectId bob
         \<and> notificationId push = ObjectId idN
         \<and> r_message push = js ''Bob'' @ replied_colon @ js ''I agree\"'')
   \<and> (\<exists>payload push.
         snd (snd (createComment (runtime idB 200 (Inr (ObjectId idN))) posted bob longDto))
           = [CreateNotification payload, NotifyCommentReply ann push]
         \<and> r_message push
             = js ''Bob'' @ replied_colon
                 @ js ''I agree with every single word of this long review...\"'')"
proof -
  let ?rt = "runtime idB 200 (Inr (ObjectId idN))"
  let ?self = "createComment ?rt posted ann replyDto"
  let ?reply = "createComment ?rt posted bob replyDto"
  let ?long = "createComment ?rt posted bob longDto"
  let ?A = "commentA\<lparr>replies := [], reply_count := 0\<rparr>"
  have self: "snd (snd ?self) = []"
  proof -
    from reply_by_ann_result obtain v where "fst ?self = Inr v" ..
    then have "?self = (Inr v, fst (snd ?self), snd (snd ?self))" by (rule result_triple)
    from reply_notification[OF this given_replyDto]
    obtain p where "findActive idA posted = Some p"
      and s: "toString (user_id p) = ann \<longrightarrow> snd (snd ?self) = []"
      by (elim exE conjE)
    then have "p = ?A" by (simp add: findActive_posted_A)
    with s author_of_posted_A(1) show ?thesis by simp
  qed
  have reply: "\<exists>payload push. snd (snd ?reply) = [CreateNotification payload, NotifyCommentReply ann push]
         \<and> n_user_id payload = ObjectId ann \<and> n_actor_id payload = ObjectId bob
         \<and> notificationId push = ObjectId idN
         \<and> r_message push = js ''Bob'' @ replied_colon @ js ''I agree\"''"
  proof -
    from reply_by_bob_result obtain v where "fst ?reply = Inr v" ..
    then have "?reply = (Inr v, fst (snd ?reply), snd (snd ?reply))" by (rule result_triple)
    from reply_notification[OF this given_replyDto]
    obtain p where p: "findActive idA posted = Some p"
      and o: "toString (user_id p) \<noteq> bob \<longrightarrow>
        (\<exists>payload push actor.
           snd (snd ?reply) = [CreateNotification payload, NotifyCommentReply (toString (user_id p)) push]
           \<and> createNotification ?rt payload = Inr (notificationId push)
           \<and> n_user_id payload = user_id p
           \<and> n_actor_id payload = ObjectId_from bob
           \<and> populate_user posted (ObjectId_from bob) = Some actor
           \<and> r_actor push = \<lparr>actor_id = ObjectId_from bob, actor_name = user_name actor,
                               actor_avatar = avatar actor\<rparr>
           \<and> r_message push
               = user_name actor @ replied_colon @ take 50 (dto_content replyDto)
                   @ (if 50 < length (dto_content replyDto) then js ''...'' else []) @ js ''\"'')"
      by (elim exE conjE)
    from p have p': "p = ?A" by (simp add: findActive_posted_A)
    from o[unfolded p' author_of_posted_A(2) ObjectId.sel, rule_format, OF ann_not_bob]
    obtain payload push actor where
      c: "snd (snd ?reply) = [CreateNotification payload, NotifyCommentReply ann push]"
         "createNotification ?rt payload = Inr (notificationId push)"
         "n_user_id payload = ObjectId ann" "n_actor_id payload = ObjectId_from bob"
         "populate_user posted (ObjectId_from bob) = Some actor"
         "r_message push
               = user_name actor @ replied_colon @ take 50 (dto_content replyDto)
                   @ (if 50 < length (dto_content replyDto) then js ''...'' else []) @ js ''\"''"
      by (elim exE conjE)
    from c(5) have a: "actor = person bob ''Bob''" by (simp add: populate_user_posted_bob)
    from c(2) have n: "notificationId push = ObjectId idN" by (simp add: runtime_def)
    from c(6) have m: "r_message push = js ''Bob'' @ replied_colon @ js ''I agree\"''"
      by (simp add: a person_def replyDto_def js_def)
    from c(1) c(3) c(4)[unfolded ObjectId_from_bob] n m show ?thesis by (intro exI conjI)
  qed
  have long: "\<exists>payload push. snd (snd ?long) = [CreateNotification payload, NotifyCommentReply ann push]
         \<and> r_message push
             = js ''Bob'' @ replied_colon
                 @ js ''I agree with every single word of this long review...\"''"
  proof -
    from long_reply_result obtain v where "fst ?long = Inr v" ..
    then have "?long = (Inr v, fst (snd ?long), snd (snd ?long))" by (rule result_triple)
    from reply_notification[OF this given_longDto]
    obtain p where p: "findActive idA posted = Some p"
      and o: "toString (user_id p) \<noteq> bob \<longrightarrow>
        (\<exists>payload push actor.
           snd (snd ?long) = [CreateNotification payload, NotifyCommentReply (toString (user_id p)) push]
           \<and> createNotification ?rt payload = Inr (notificationId push)
           \<and> n_user_id payload = user_id p
           \<and> n_actor_id payload = ObjectId_from bob
           \<and> populate_user posted (ObjectId_from bob) = Some actor
           \<and> r_actor push = \<lparr>actor_id = ObjectId_from bob, actor_name = user_name actor,
                               actor_avatar = avatar actor\<rparr>
           \<and> r_message push
               = user_name actor @ replied_colon @ take 50 (dto_content longDto)
                   @ (if 50 < length (dto_content longDto) then js ''...'' else []) @ js ''\"'')"
      by (elim exE conjE)
    from p have p': "p = ?A" by (simp add: findActive_posted_A)
    from o[unfolded p' author_of_posted_A(2) ObjectId.sel, rule_format, OF ann_not_bob]
    obtain payload push actor where
      c: "snd (snd ?long) = [CreateNotification payload, NotifyCommentReply ann push]"
         "populate_user posted (ObjectId_from bob) = Some actor"
         "r_message push
               = user_name actor @ replied_colon @ take 50 (dto_content longDto)
                   @ (if 50 < length (dto_content longDto) then js ''...'' else []) @ js ''\"''"
      by (elim exE conjE)
    from c(2) have a: "actor = person bob ''Bob''" by (simp add: populate_user_posted_bob)
    from c(3) have "r_message push = js ''Bob'' @ replied_colon
                 @ js ''I agree with every single word of this long review...\"''"
      by (simp add: a person_def longDto_def js_def)
    with c(1) show ?thesis by (intro exI conjI)
  qed
  from self reply long show ?thesis by (intro conjI)
qed

subsection \<open>C6\<close>

text \<open>
  C6. \<^verbatim>\<open>updateComment\<close>, and \<^verbatim>\<open>deleteComment\<close> called without the admin flag, on a comment
  that exists and is not deleted, by a requester whose identifier is not the printed
  identifier of the author: both fail with a \<open>ForbiddenException\<close> and return the store
  they were given.
\<close>

theorem non_author_forbidden:
  assumes "isValid commentId" and "findActive commentId s = Some c"
    and "toString (user_id c) \<noteq> userId"
  shows "updateComment s commentId userId dto
           = (Inl (ForbiddenException ''You are not allowed to update this comment''), s)
       \<and> deleteComment s commentId userId False
           = (Inl (ForbiddenException ''You are not allowed to delete this comment''), s)"
  using assms by (simp add: updateComment_def deleteComment_def)

theorem non_author_forbidden_witness:
  "updateComment thread idA bob \<lparr>upd_content = Some (js ''Bad product'')\<rparr>
     = (Inl (ForbiddenException ''You are not allowed to update this comment''), thread)
   \<and> deleteComment thread idA bob False
     = (Inl (ForbiddenException ''You are not allowed to delete this comment''), thread)"
proof -
  have "isValid idA" by (simp add: example_defs eval_defs)
  moreover have "toString (user_id commentA) \<noteq> bob" by (simp add: example_defs)
  ultimately show ?thesis
    using non_author_forbidden[OF _ findActive_thread_A] by blast
qed

subsection \<open>C7\<close>

text \<open>
  C7. \<^verbatim>\<open>deleteComment\<close> on the identifier of a comment that is already soft-deleted, in a
  store with unique identifiers, fails with \<open>NotFoundException\<close> whoever asks, admin or
  not, and returns the store it was given: no second soft-delete, no recount of a parent.
\<close>

theorem delete_deleted_not_found:
  assumes "isValid commentId" and "unique_ids s"
    and "findById (ObjectId_from commentId) s = Some c" and "is_deleted c"
  shows "deleteComment s commentId userId isAdmin = (Inl (NotFoundException ''Comment not found''), s)"
  using assms(1) findById_deleted[OF assms(2,3,4)] by (simp add: deleteComment_def)

theorem delete_deleted_not_found_witness:
  "deleteComment removed idB bob False = (Inl (NotFoundException ''Comment not found''), removed)
   \<and> deleteComment removed idB ann True = (Inl (NotFoundException ''Comment not found''), removed)"
proof -
  have a: "isValid idB" by (simp add: example_defs eval_defs)
  have b: "unique_ids removed" by (simp add: unique_ids_def removed_def example_defs)
  have c: "findById (ObjectId_from idB) removed = Some (commentB\<lparr>is_deleted := True\<rparr>)"
    by (simp add: removed_def example_defs eval_defs)
  have d: "is_deleted (commentB\<lparr>is_deleted := True\<rparr>)" by simp
  show ?thesis
    using delete_deleted_not_found[OF a b c d, of bob False]
          delete_deleted_not_found[OF a b c d, of ann True] by simp
qed

subsection \<open>C8\<close>

text \<open>
  C8. \<^verbatim>\<open>adminReplyComment\<close> reads \<^verbatim>\<open>_id\<close> of the populated product of the target
  comment, which is null when no product document has that identifier.
  \<^verbatim>\<open>createComment\<close> never looks the product up, so such a comment is written by the
  service itself (first conjunct). On it \<^verbatim>\<open>adminReplyComment\<close> ends in a \<open>TypeError\<close>
  and writes nothing, whereas \<^verbatim>\<open>createComment\<close> with the target's product identifier,
  the same user, the same content and the target as parent stores the reply: it succeeds
  when the user is the author of the target, and fails only after both writes otherwise.
\<close>

theorem adminReply_missing_product:
  "fst (snd (createComment (runtime idA 100 (Inr (ObjectId idN))) empty_shop ann topDto))
     = unlisted
   \<and> findActive idA unlisted = Some (commentA\<lparr>replies := [], reply_count := 0\<rparr>)
   \<and> toString (product_id (commentA\<lparr>replies := [], reply_count := 0\<rparr>)) = pen
   \<and> adminReplyComment (runtime idB 200 (Inr (ObjectId idN))) unlisted idA ann
        \<lparr>dto_product_id = [], dto_content = js ''I agree'', dto_parent_id = None\<rparr>
       = (Inl TypeError, unlisted, [])
   \<and> createComment (runtime idB 200 (Inr (ObjectId idN))) unlisted ann
        \<lparr>dto_product_id = pen, dto_content = js ''I agree'', dto_parent_id = Some idA\<rparr>
       = (Inr (Some \<lparr>v_id = ObjectId idB, v_product_id = None,
                     v_user_id = Some (person ann ''Ann''), v_content = js ''I agree'',
                     v_parent_id = Some (ObjectId idA), v_reply_count = 0,
                     v_created_at = 200\<rparr>),
          unlisted\<lparr>comments := [commentA, commentB\<lparr>user_id := ObjectId ann\<rparr>]\<rparr>, [])
   \<and> adminReplyComment (runtime idB 200 (Inr (ObjectId idN))) unlisted idA cat
        \<lparr>dto_product_id = [], dto_content = js ''I agree'', dto_parent_id = None\<rparr>
       = (Inl TypeError, unlisted, [])
   \<and> createComment (runtime idB 200 (Inr (ObjectId idN))) unlisted cat
        \<lparr>dto_product_id = pen, dto_content = js ''I agree'', dto_parent_id = Some idA\<rparr>
       = (Inl TypeError,
          unlisted\<lparr>comments := [commentA, commentB\<lparr>user_id := ObjectId cat\<rparr>]\<rparr>, [])"
  by (simp add: adminReplyComment_def create_defs unlisted_def empty_shop_def topDto_def
        example_defs eval_defs)

subsection \<open>C9\<close>



subsection \<open>C10\<close>

text \<open>
  C10 (as amended). In \<^verbatim>\<open>getAllCommentsAdmin\<close> a \<^verbatim>\<open>product_id\<close> that is not a well-formed
  identifier does not make the call fail with a \<open>BadRequestException\<close>, which the method
  never raises: the filter is dropped, and the answer is the page of all the top-level
  comments that are not deleted, newest first, with their number as the total; when a search
  text is given, of those whose content matches it. \<^verbatim>\<open>getReplies\<close> never looks the comment
  up: on every well-formed identifier it never fails with \<open>NotFoundException\<close>, and it
  answers with the page of the replies that are not deleted and whose \<^verbatim>\<open>parent_id\<close> is that
  identifier, oldest first, with their number as the total. So the page is empty and the
  total 0 whenever there is no such reply, in particular when no comment has the identifier
  in a store that satisfies \<open>two_levels\<close>; but the replies of a soft-deleted comment that
  are not deleted themselves are still listed (the counterexample). In both methods a page
  is what is left of the sorted list after dropping the skip \<^verbatim>\<open>(page - 1) * limit\<close> and
  taking at most \<open>\<bar>limit\<bar>\<close> documents, all of them when the limit is 0; the store refuses a
  negative skip, and a search text that is not a regular expression.
\<close>

theorem listings_without_lookup:
  "(\<not> isValid pid \<and> given search = None \<longrightarrow>
      getAllCommentsAdmin regex s page limit (Some pid) search =
        (let shown = filter (\<lambda>c. \<not> is_deleted c \<and> parent_id c = None) (comments s);
             rest = drop (nat ((page - 1) * limit)) (sort_key (\<lambda>c. - created_at c) shown)
         in if (page - 1) * limit < 0 then Inl MongoServerError
            else Inr \<lparr>page_comments =
                        map (lean s (populate_product s))
                          (if limit = 0 then rest else take (nat \<bar>limit\<bar>) rest),
                      pagination =
                        \<lparr>pg_total = int (length shown), pg_page = page, pg_limit = limit,
                         totalPages = ceil_div (int (length shown)) limit\<rparr>\<rparr>))
   \<and> (\<not> isValid pid \<and> given search = Some pat \<and> regex pat = Some matches \<longrightarrow>
      getAllCommentsAdmin regex s page limit (Some pid) search =
        (let shown = filter (\<lambda>c. \<not> is_deleted c \<and> parent_id c = None \<and> matches (content c))
                       (comments s);
             rest = drop (nat ((page - 1) * limit)) (sort_key (\<lambda>c. - created_at c) shown)
         in if (page - 1) * limit < 0 then Inl MongoServerError
            else Inr \<lparr>page_comments =
                        map (lean s (populate_product s))
                          (if limit = 0 then rest else take (nat \<bar>limit\<bar>) rest),
                      pagination =
                        \<lparr>pg_total = int (length shown), pg_page = page, pg_limit = limit,
                         totalPages = ceil_div (int (length shown)) limit\<rparr>\<rparr>))
   \<and> (given search = Some pat \<and> regex pat = None \<longrightarrow>
      getAllCommentsAdmin regex s page limit productId search = Inl MongoServerError)
   \<and> (\<not> isValid pid \<longrightarrow>
      getAllCommentsAdmin regex s page limit (Some pid) search
        = getAllCommentsAdmin regex s page limit None search)
   \<and> (\<forall>m. getAllCommentsAdmin regex s page limit productId search \<noteq> Inl (BadRequestException m))
   \<and> (isValid commentId \<longrightarrow>
      getReplies s commentId page limit =
        (let live = filter (\<lambda>c. parent_id c = Some (ObjectId_from commentId) \<and> \<not> is_deleted c)
                      (comments s);
             rest = drop (nat ((page - 1) * limit)) (sort_key created_at live)
         in if (page - 1) * limit < 0 then Inl MongoServerError
            else Inr \<lparr>page_comments =
                        map (lean s (\<lambda>i. i)) (if limit = 0 then rest else take (nat \<bar>limit\<bar>) rest),
                      pagination =
                        \<lparr>pg_total = int (length live), pg_page = page, pg_limit = limit,
                         totalPages = ceil_div (int (length live)) limit\<rparr>\<rparr>))
   \<and> (isValid commentId \<longrightarrow>
        (\<forall>m. getReplies s commentId page limit \<noteq> Inl (NotFoundException m)))
   \<and> (isValid commentId \<and> 0 \<le> (page - 1) * limit
        \<and> (\<forall>c \<in> set (comments s). parent_id c = Some (ObjectId_from commentId) \<longrightarrow> is_deleted c)
      \<longrightarrow> getReplies s commentId page limit
            = Inr \<lparr>page_comments = [],
                   pagination = \<lparr>pg_total = 0, pg_page = page, pg_limit = limit,
                                 totalPages = ceil_div 0 limit\<rparr>\<rparr>)
   \<and> (isValid commentId \<and> 0 \<le> (page - 1) * limit \<and> two_levels s
        \<and> findById (ObjectId_from commentId) s = None
      \<longrightarrow> getReplies s commentId page limit
            = Inr \<lparr>page_comments = [],
                   pagination = \<lparr>pg_total = 0, pg_page = page, pg_limit = limit,
                                 totalPages = ceil_div 0 limit\<rparr>\<rparr>)"
proof (intro conjI impI allI)
  assume a: "\<not> isValid pid \<and> given search = None"
  then have g: "given (Some pid) = None \<or> given (Some pid) = Some pid"
    by (simp add: given_def)
  from a g show "getAllCommentsAdmin regex s page limit (Some pid) search =
        (let shown = filter (\<lambda>c. \<not> is_deleted c \<and> parent_id c = None) (comments s);
             rest = drop (nat ((page - 1) * limit)) (sort_key (\<lambda>c. - created_at c) shown)
         in if (page - 1) * limit < 0 then Inl MongoServerError
            else Inr \<lparr>page_comments =
                        map (lean s (populate_product s))
                          (if limit = 0 then rest else take (nat \<bar>limit\<bar>) rest),
                      pagination =
                        \<lparr>pg_total = int (length shown), pg_page = page, pg_limit = limit,
                         totalPages = ceil_div (int (length shown)) limit\<rparr>\<rparr>)"
    unfolding getAllCommentsAdmin_def find_page_eq by (auto simp: Let_def)
next
  assume a: "\<not> isValid pid \<and> given search = Some pat \<and> regex pat = Some matches"
  then have g: "given (Some pid) = None \<or> given (Some pid) = Some pid"
    by (simp add: given_def)
  from a g show "getAllCommentsAdmin regex s page limit (Some pid) search =
        (let shown = filter (\<lambda>c. \<not> is_deleted c \<and> parent_id c = None \<and> matches (content c))
                       (comments s);
             rest = drop (nat ((page - 1) * limit)) (sort_key (\<lambda>c. - created_at c) shown)
         in if (page - 1) * limit < 0 then Inl MongoServerError
            else Inr \<lparr>page_comments =
                        map (lean s (populate_product s))
                          (if limit = 0 then rest else take (nat \<bar>limit\<bar>) rest),
                      pagination =
                        \<lparr>pg_total = int (length shown), pg_page = page, pg_limit = limit,
                         totalPages = ceil_div (int (length shown)) limit\<rparr>\<rparr>)"
    unfolding getAllCommentsAdmin_def find_page_eq by (auto simp: Let_def)
next
  assume "given search = Some pat \<and> regex pat = None"
  then show "getAllCommentsAdmin regex s page limit productId search = Inl MongoServerError"
    by (simp add: getAllCommentsAdmin_def)
next
  assume "\<not> isValid pid"
  then show "getAllCommentsAdmin regex s page limit (Some pid) search
        = getAllCommentsAdmin regex s page limit None search"
    by (auto simp: getAllCommentsAdmin_def given_def split: option.splits)
next
  fix m
  show "getAllCommentsAdmin regex s page limit productId search \<noteq> Inl (BadRequestException m)"
    using getAllCommentsAdmin_error by fastforce
next
  assume "isValid commentId"
  then show "getReplies s commentId page limit =
        (let live = filter (\<lambda>c. parent_id c = Some (ObjectId_from commentId) \<and> \<not> is_deleted c)
                      (comments s);
             rest = drop (nat ((page - 1) * limit)) (sort_key created_at live)
         in if (page - 1) * limit < 0 then Inl MongoServerError
            else Inr \<lparr>page_comments =
                        map (lean s (\<lambda>i. i)) (if limit = 0 then rest else take (nat \<bar>limit\<bar>) rest),
                      pagination =
                        \<lparr>pg_total = int (length live), pg_page = page, pg_limit = limit,
                         totalPages = ceil_div (int (length live)) limit\<rparr>\<rparr>)"
    by (simp add: getReplies_def find_page_eq)
next
  fix m
  assume "isValid commentId"
  then show "getReplies s commentId page limit \<noteq> Inl (NotFoundException m)"
    using find_page_error by (fastforce simp: getReplies_def)
next
  assume a: "isValid commentId \<and> 0 \<le> (page - 1) * limit
        \<and> (\<forall>c \<in> set (comments s). parent_id c = Some (ObjectId_from commentId) \<longrightarrow> is_deleted c)"
  then have "filter (\<lambda>c. parent_id c = Some (ObjectId_from commentId) \<and> \<not> is_deleted c) (comments s) = []"
    by (auto simp: filter_empty_conv)
  with a show "getReplies s commentId page limit
            = Inr \<lparr>page_comments = [],
                   pagination = \<lparr>pg_total = 0, pg_page = page, pg_limit = limit,
                                 totalPages = ceil_div 0 limit\<rparr>\<rparr>"
    by (simp add: getReplies_def find_page_no_match)
next
  assume a: "isValid commentId \<and> 0 \<le> (page - 1) * limit \<and> two_levels s
        \<and> findById (ObjectId_from commentId) s = None"
  then have "filter (\<lambda>c. parent_id c = Some (ObjectId_from commentId) \<and> \<not> is_deleted c) (comments s) = []"
    by (intro no_reply_of_missing) auto
  with a show "getReplies s commentId page limit
            = Inr \<lparr>page_comments = [],
                   pagination = \<lparr>pg_total = 0, pg_page = page, pg_limit = limit,
                                 totalPages = ceil_div 0 limit\<rparr>\<rparr>"
    by (simp add: getReplies_def find_page_no_match)
qed

theorem listings_without_lookup_witness:
  "getAllCommentsAdmin (\<lambda>pat. None) forum 1 10 (Some (js ''pen'')) None
     = Inr \<lparr>page_comments =
              [\<lparr>v_id = ObjectId idF,
                v_product_id = Some \<lparr>p_id = ObjectId ink, product_name = js ''Ink'',
                                     slug = js ''ink'', image_primary = None\<rparr>,
                v_user_id = Some (person cat ''Cat''), v_content = js ''Dries fast'',
                v_parent_id = None, v_reply_count = 0, v_created_at = 300\<rparr>,
               \<lparr>v_id = ObjectId idA,
                v_product_id = Some \<lparr>p_id = ObjectId pen, product_name = js ''Pen'',
                                     slug = js ''pen'', image_primary = None\<rparr>,
                v_user_id = Some (person ann ''Ann''), v_content = js ''Good product'',
                v_parent_id = None, v_reply_count = 2, v_created_at = 100\<rparr>],
            pagination = \<lparr>pg_total = 2, pg_page = 1, pg_limit = 10, totalPages = Num 1\<rparr>\<rparr>
   \<and> getAllCommentsAdmin (\<lambda>pat. Some (\<lambda>t. take (length pat) t = pat)) forum 1 10
         (Some (js ''pen'')) (Some (js ''Good''))
     = Inr \<lparr>page_comments =
              [\<lparr>v_id = ObjectId idA,
                v_product_id = Some \<lparr>p_id = ObjectId pen, product_name = js ''Pen'',
                                     slug = js ''pen'', image_primary = None\<rparr>,
                v_user_id = Some (person ann ''Ann''), v_content = js ''Good product'',
                v_parent_id = None, v_reply_count = 2, v_created_at = 100\<rparr>],
            pagination = \<lparr>pg_total = 1, pg_page = 1, pg_limit = 10, totalPages = Num 1\<rparr>\<rparr>
   \<and> getAllCommentsAdmin (\<lambda>pat. None) forum 1 10 None (Some (js ''(''))
     = Inl MongoServerError
   \<and> getAllCommentsAdmin (\<lambda>pat. None) forum 1 10 (Some (js ''pen'')) None
     = getAllCommentsAdmin (\<lambda>pat. None) forum 1 10 None None
   \<and> getReplies forum idA 1 10
     = Inr \<lparr>page_comments =
              [\<lparr>v_id = ObjectId idC, v_product_id = ObjectId pen,
                v_user_id = Some (person cat ''Cat''), v_content = js ''Me too'',
                v_parent_id = Some (ObjectId idA), v_reply_count = 0, v_created_at = 150\<rparr>,
               \<lparr>v_id = ObjectId idB, v_product_id = ObjectId pen,
                v_user_id = Some (person bob ''Bob''), v_content = js ''I agree'',
                v_parent_id = Some (ObjectId idA), v_reply_count = 0, v_created_at = 200\<rparr>],
            pagination = \<lparr>pg_total = 2, pg_page = 1, pg_limit = 10, totalPages = Num 1\<rparr>\<rparr>
   \<and> getReplies forum idA 2 1
     = Inr \<lparr>page_comments =
              [\<lparr>v_id = ObjectId idB, v_product_id = ObjectId pen,
                v_user_id = Some (person bob ''Bob''), v_content = js ''I agree'',
                v_parent_id = Some (ObjectId idA), v_reply_count = 0, v_created_at = 200\<rparr>],
            pagination = \<lparr>pg_total = 2, pg_page = 2, pg_limit = 1, totalPages = Num 2\<rparr>\<rparr>
   \<and> getReplies forum idA 0 10 = Inl MongoServerError
   \<and> getReplies forum idA 1 10 \<noteq> Inl (NotFoundException ''Comment not found'')
   \<and> getReplies thread idB 1 10
     = Inr \<lparr>page_comments = [],
            pagination = \<lparr>pg_total = 0, pg_page = 1, pg_limit = 10, totalPages = Num 0\<rparr>\<rparr>
   \<and> getReplies thread idC 1 10
     = Inr \<lparr>page_comments = [],
            pagination = \<lparr>pg_total = 0, pg_page = 1, pg_limit = 10, totalPages = Num 0\<rparr>\<rparr>"
proof -
  note view_defs = forum_def idF_def example_defs eval_defs lean_def populate_user_def
    populate_product_def ceil_div_def Let_def
  have p: "\<not> isValid (js ''pen'')" by (simp add: eval_defs js_def)
  have a: "\<not> isValid (js ''pen'') \<and> given (None :: jsstring option) = None"
    by (simp add: eval_defs js_def)
  have b: "\<not> isValid (js ''pen'') \<and> given (Some (js ''Good'')) = Some (js ''Good'')
        \<and> (\<lambda>pat. Some (\<lambda>t. take (length pat) t = pat)) (js ''Good'')
            = Some (\<lambda>t. take (length (js ''Good'')) t = js ''Good'')"
    by (simp add: eval_defs js_def)
  have c: "given (Some (js ''('')) = Some (js ''('')
        \<and> (\<lambda>pat. None :: (jsstring \<Rightarrow> bool) option) (js ''('') = None"
    by (simp add: eval_defs js_def)
  have d: "isValid idA" by (simp add: example_defs eval_defs)
  have e: "isValid idB \<and> (0::int) \<le> (1 - 1) * 10
        \<and> (\<forall>c \<in> set (comments thread). parent_id c = Some (ObjectId_from idB) \<longrightarrow> is_deleted c)"
    by (simp add: example_defs eval_defs)
  have f: "isValid idC \<and> (0::int) \<le> (1 - 1) * 10 \<and> two_levels thread
        \<and> findById (ObjectId_from idC) thread = None"
    using two_levels_thread by (simp add: example_defs eval_defs)
  have z: "ceil_div 0 10 = Num 0" by (simp add: ceil_div_def)
  note t = listings_without_lookup[where s = forum and pid = "js ''pen''"
      and commentId = idA]
  note u = listings_without_lookup[where s = thread and page = 1 and limit = 10]
  have 1: "getAllCommentsAdmin (\<lambda>pat. None) forum 1 10 (Some (js ''pen'')) None
     = Inr \<lparr>page_comments =
              [\<lparr>v_id = ObjectId idF,
                v_product_id = Some \<lparr>p_id = ObjectId ink, product_name = js ''Ink'',
                                     slug = js ''ink'', image_primary = None\<rparr>,
                v_user_id = Some (person cat ''Cat''), v_content = js ''Dries fast'',
                v_parent_id = None, v_reply_count = 0, v_created_at = 300\<rparr>,
               \<lparr>v_id = ObjectId idA,
                v_product_id = Some \<lparr>p_id = ObjectId pen, product_name = js ''Pen'',
                                     slug = js ''pen'', image_primary = None\<rparr>,
                v_user_id = Some (person ann ''Ann''), v_content = js ''Good product'',
                v_parent_id = None, v_reply_count = 2, v_created_at = 100\<rparr>],
            pagination = \<lparr>pg_total = 2, pg_page = 1, pg_limit = 10, totalPages = Num 1\<rparr>\<rparr>"
    using t[where page = 1 and limit = 10 and regex = "\<lambda>pat. None" and search = None,
            THEN conjunct1, rule_format, OF a]
    by (simp add: view_defs)
  have 2: "getAllCommentsAdmin (\<lambda>pat. Some (\<lambda>t. take (length pat) t = pat)) forum 1 10
         (Some (js ''pen'')) (Some (js ''Good''))
     = Inr \<lparr>page_comments =
              [\<lparr>v_id = ObjectId idA,
                v_product_id = Some \<lparr>p_id = ObjectId pen, product_name = js ''Pen'',
                                     slug = js ''pen'', image_primary = None\<rparr>,
                v_user_id = Some (person ann ''Ann''), v_content = js ''Good product'',
                v_parent_id = None, v_reply_count = 2, v_created_at = 100\<rparr>],
            pagination = \<lparr>pg_total = 1, pg_page = 1, pg_limit = 10, totalPages = Num 1\<rparr>\<rparr>"
    using t[where page = 1 and limit = 10
              and regex = "\<lambda>pat. Some (\<lambda>t. take (length pat) t = pat)"
              and search = "Some (js ''Good'')" and pat = "js ''Good''"
              and matches = "\<lambda>t. take (length (js ''Good'')) t = js ''Good''",
            THEN conjunct2, THEN conjunct1, rule_format, OF b]
    by (simp add: view_defs)
  have 3: "getAllCommentsAdmin (\<lambda>pat. None) forum 1 10 None (Some (js ''(''))
     = Inl MongoServerError"
    by (rule t[where page = 1 and limit = 10 and regex = "\<lambda>pat. None"
              and search = "Some (js ''('')" and pat = "js ''(''" and productId = None,
            THEN conjunct2, THEN conjunct2, THEN conjunct1, rule_format, OF c])
  have 4: "getAllCommentsAdmin (\<lambda>pat. None) forum 1 10 (Some (js ''pen'')) None
     = getAllCommentsAdmin (\<lambda>pat. None) forum 1 10 None None"
    by (rule t[where page = 1 and limit = 10 and regex = "\<lambda>pat. None" and search = None,
            THEN conjunct2, THEN conjunct2, THEN conjunct2, THEN conjunct1, rule_format, OF p])
  note g = t[THEN conjunct2, THEN conjunct2, THEN conjunct2, THEN conjunct2, THEN conjunct2,
             THEN conjunct1, rule_format, OF d]
  have 5: "getReplies forum idA 1 10
     = Inr \<lparr>page_comments =
              [\<lparr>v_id = ObjectId idC, v_product_id = ObjectId pen,
                v_user_id = Some (person cat ''Cat''), v_content = js ''Me too'',
                v_parent_id = Some (ObjectId idA), v_reply_count = 0, v_created_at = 150\<rparr>,
               \<lparr>v_id = ObjectId idB, v_product_id = ObjectId pen,
                v_user_id = Some (person bob ''Bob''), v_content = js ''I agree'',
                v_parent_id = Some (ObjectId idA), v_reply_count = 0, v_created_at = 200\<rparr>],
            pagination = \<lparr>pg_total = 2, pg_page = 1, pg_limit = 10, totalPages = Num 1\<rparr>\<rparr>"
    using g[where page = 1 and limit = 10] by (simp add: view_defs)
  have 6: "getReplies forum idA 2 1
     = Inr \<lparr>page_comments =
              [\<lparr>v_id = ObjectId idB, v_product_id = ObjectId pen,
                v_user_id = Some (person bob ''Bob''), v_content = js ''I agree'',
                v_parent_id = Some (ObjectId idA), v_reply_count = 0, v_created_at = 200\<rparr>],
            pagination = \<lparr>pg_total = 2, pg_page = 2, pg_limit = 1, totalPages = Num 2\<rparr>\<rparr>"
    using g[where page = 2 and limit = 1] by (simp add: view_defs)
  have 7: "getReplies forum idA 0 10 = Inl MongoServerError"
    using g[where page = 0 and limit = 10] by (simp add: Let_def)
  have n: "getReplies forum idA 1 10 \<noteq> Inl (NotFoundException ''Comment not found'')"
    by (rule t[where page = 1 and limit = 10, THEN conjunct2, THEN conjunct2, THEN conjunct2,
            THEN conjunct2, THEN conjunct2, THEN conjunct2, THEN conjunct1, rule_format, OF d])
  note 8 = u[where commentId = idB, THEN conjunct2, THEN conjunct2, THEN conjunct2,
             THEN conjunct2, THEN conjunct2, THEN conjunct2, THEN conjunct2, THEN conjunct1,
             rule_format, OF e, unfolded z]
  note 9 = u[where commentId = idC, THEN conjunct2, THEN conjunct2, THEN conjunct2,
             THEN conjunct2, THEN conjunct2, THEN conjunct2, THEN conjunct2, THEN conjunct2,
             rule_format, OF f, unfolded z]
  from 1 2 3 4 5 6 7 n 8 9 show ?thesis by (intro conjI)
qed

theorem listings_without_lookup_counterexample:
  "snd (deleteComment thread idA ann False) = hidden
   \<and> getReplies hidden idA 1 10
       = Inr \<lparr>page_comments =
                [\<lparr>v_id = ObjectId idB, v_product_id = ObjectId pen,
                  v_user_id = Some (person bob ''Bob''), v_content = js ''I agree'',
                  v_parent_id = Some (ObjectId idA), v_reply_count = 0, v_created_at = 200\<rparr>],
              pagination = \<lparr>pg_total = 1, pg_page = 1, pg_limit = 10, totalPages = Num 1\<rparr>\<rparr>"
  by (simp add: deleteComment_def updateOne_def listing_defs hidden_def example_defs eval_defs)

end
